theory Spec2Isabelle
  imports Main "HOL-Library.Sublist" "HOL-Library.AList"
begin

section \<open>Python strings\<close>

text \<open>
  A Python \<^verbatim>\<open>str\<close> is a sequence of Unicode code points.  The sources compare
  characters with \<^verbatim>\<open>chr(65279)\<close> (the byte order mark), which an 8-bit character
  cannot hold, so a character is modelled by its code point and a string by the list
  of its code points.  \<open>u\<close> turns a HOL string literal into such a list.
\<close>

type_synonym pychar = nat
type_synonym pystr = "nat list"

abbreviation u :: "string \<Rightarrow> pystr" where
  "u s \<equiv> map of_char s"

abbreviation SPACE :: pychar where "SPACE \<equiv> 32"
abbreviation ASTERISK :: pychar where "ASTERISK \<equiv> 42"
abbreviation BACKSLASH :: pychar where "BACKSLASH \<equiv> 92"
abbreviation HASH :: pychar where "HASH \<equiv> 35"
abbreviation NEWLINE :: pychar where "NEWLINE \<equiv> 10"
abbreviation CR :: pychar where "CR \<equiv> 13"
abbreviation TAB :: pychar where "TAB \<equiv> 9"
abbreviation HYPHEN :: pychar where "HYPHEN \<equiv> 45"
abbreviation DOT :: pychar where "DOT \<equiv> 46"
abbreviation BOM :: pychar where "BOM \<equiv> 65279"

datatype py_error =
    IndexError | KeyError | NameError | TypeError | AttributeError
  | UnboundLocalError | AssertionError | RuntimeError

text \<open>\<^verbatim>\<open>s.find(sub)\<close>: the index of the first occurrence of \<open>sub\<close>, or \<open>-1\<close>.\<close>

fun str_find :: "pystr \<Rightarrow> pystr \<Rightarrow> int" where
  "str_find [] sub = (if sub = [] then 0 else - 1)"
| "str_find (x # xs) sub =
     (if prefix sub (x # xs) then 0
      else (let r = str_find xs sub in if r = - 1 then - 1 else r + 1))"

text \<open>\<^verbatim>\<open>sub in s\<close> for strings.\<close>

definition str_in :: "pystr \<Rightarrow> pystr \<Rightarrow> bool" where
  "str_in sub s = (str_find s sub \<noteq> - 1)"

text \<open>Slices \<^verbatim>\<open>s[i:]\<close> and \<^verbatim>\<open>s[:i]\<close>; a negative index counts from the end and
  every index is clipped to the string.\<close>

definition slice_index :: "int \<Rightarrow> nat \<Rightarrow> nat" where
  "slice_index i n = (if i < 0 then nat (int n + i) else min (nat i) n)"

definition slice_from :: "'a list \<Rightarrow> int \<Rightarrow> 'a list" where
  "slice_from s i = drop (slice_index i (length s)) s"

definition slice_to :: "'a list \<Rightarrow> int \<Rightarrow> 'a list" where
  "slice_to s i = take (slice_index i (length s)) s"

section \<open>USFMFile.py\<close>

definition DUMMY_VALUE :: int where
  "DUMMY_VALUE = 999999"

text \<open>\<^verbatim>\<open>splitMarkerText( line )\<close>.  The final \<^verbatim>\<open>elif\<close> chain has no \<^verbatim>\<open>else\<close>: falling
  through it would leave \<^verbatim>\<open>marker\<close> unbound at the \<^verbatim>\<open>return\<close>.\<close>

definition splitMarkerText :: "pystr \<Rightarrow> py_error + (pystr option \<times> pystr)" where
  "splitMarkerText line =
     (if line = [] then Inr (None, [])
      else if hd line \<noteq> BACKSLASH then Inr (None, line)
      else
        let lineAfterBackslash = slice_from line 1;
            si1 = str_find lineAfterBackslash [SPACE];
            si2 = str_find lineAfterBackslash [ASTERISK];
            si3 = str_find lineAfterBackslash [BACKSLASH];
            si1 = (if si1 = - 1 then DUMMY_VALUE else si1);
            si2 = (if si2 = - 1 then DUMMY_VALUE else si2);
            si3 = (if si3 = - 1 then DUMMY_VALUE else si3);
            si = min si1 (min si2 si3)
        in if si = DUMMY_VALUE then Inr (Some lineAfterBackslash, [])
           else if si = si3 then
             Inr (Some (slice_to lineAfterBackslash si3), slice_from lineAfterBackslash si3)
           else if si = si2 then
             Inr (Some (slice_to lineAfterBackslash (si2 + 1)),
                  slice_from lineAfterBackslash (si2 + 1))
           else if si = si1 then
             Inr (Some (slice_to lineAfterBackslash si1),
                  slice_from lineAfterBackslash (si1 + 1))
           else Inl UnboundLocalError)"

text \<open>
  \<^verbatim>\<open>USFMFile.read\<close>.  Iterating the open text file yields decoded lines (each with
  its trailing newline, the last one possibly without) until the decoder raises
  \<^verbatim>\<open>UnicodeError\<close>; \<open>file_item\<close> is one step of that iteration.  The local
  variables of the loop are the fields of \<open>read_state\<close>; \<open>marker\<close> is \<open>None\<close>
  while the Python variable is unbound.  \<open>logged\<close> collects the calls to
  \<^verbatim>\<open>logging\<close>.
\<close>

datatype file_item = Line pystr | UnicodeError

datatype log_entry =
    InfoDetectedBOM
  | ErrorNonUSFMLineIgnored int
  | CriticalInvalidLineIgnored int

record read_state =
  lastLine :: pystr
  lineCount :: int
  result :: "(pystr \<times> pystr) list"
  marker :: "pystr option"
  logged :: "log_entry list"

datatype loop_step = Continue read_state | Raise py_error

text \<open>The body of the \<^verbatim>\<open>for\<close> loop from the marker parsing on (lines 164 to 189).\<close>

definition read_marker_line :: "pystr list \<Rightarrow> read_state \<Rightarrow> pystr \<Rightarrow> loop_step" where
  "read_marker_line ignoreSFMs st line =
     (let lineAfterBackslash = slice_from line 1;
          si1 = str_find lineAfterBackslash [SPACE];
          si2 = str_find lineAfterBackslash [ASTERISK];
          si3 = str_find lineAfterBackslash [BACKSLASH];
          si1 = (if si1 = - 1 then DUMMY_VALUE else si1);
          si2 = (if si2 = - 1 then DUMMY_VALUE else si2);
          si3 = (if si3 = - 1 then DUMMY_VALUE else si3);
          si = min si1 (min si2 si3);
          mt = (if si \<noteq> DUMMY_VALUE then
                  (if si = si3 then
                     Some (slice_to lineAfterBackslash si3, slice_from lineAfterBackslash si3)
                   else if si = si2 then
                     Some (slice_to lineAfterBackslash (si2 + 1),
                           slice_from lineAfterBackslash (si2 + 1))
                   else if si = si1 then
                     Some (slice_to lineAfterBackslash si1,
                           slice_from lineAfterBackslash (si1 + 1))
                   else None)
                else Some (lineAfterBackslash, []))
      in case mt of
           None \<Rightarrow> Raise UnboundLocalError
         | Some (m, text) \<Rightarrow>
             Continue (st\<lparr>marker := Some m,
                          result := (if m \<notin> set ignoreSFMs then result st @ [(m, text)]
                                     else result st)\<rparr>))"

text \<open>One pass of the loop body for the line the iteration has just yielded.
  \<open>utf8\<close> stands for the test \<^verbatim>\<open>encoding.lower()=='utf-8'\<close>.\<close>

definition read_line ::
  "int \<Rightarrow> bool \<Rightarrow> pystr list \<Rightarrow> read_state \<Rightarrow> pystr \<Rightarrow> loop_step" where
  "read_line verbosityLevel utf8 ignoreSFMs st0 line0 =
     (let st = st0\<lparr>lineCount := lineCount st0 + 1\<rparr> in
      if lineCount st = 1 \<and> utf8 \<and> line0 = [] then Raise IndexError
      else
        let bom = (lineCount st = 1 \<and> utf8 \<and> hd line0 = BOM);
            st = (if bom then st\<lparr>logged := logged st @ [InfoDetectedBOM]\<rparr> else st);
            line = (if bom then slice_from line0 1 else line0)
        in if line = [] then Raise IndexError
           else
             let line = (if last line = NEWLINE then slice_to line (- 1) else line) in
             if line = [] then Continue st
             else
               let st = st\<lparr>lastLine := line\<rparr> in
               if hd line = HASH then Continue st
               else if hd line \<noteq> BACKSLASH then
                 (if length (result st) = 0 then
                    read_marker_line ignoreSFMs
                      (if verbosityLevel > 2
                       then st\<lparr>logged := logged st @ [ErrorNonUSFMLineIgnored (lineCount st)]\<rparr>
                       else st) line
                  else
                    (case marker st of
                       None \<Rightarrow> Raise UnboundLocalError
                     | Some m \<Rightarrow>
                         if m \<notin> set ignoreSFMs then
                           (case last (result st) of (oldmarker, oldtext) \<Rightarrow>
                              Continue (st\<lparr>result := butlast (result st)
                                               @ [(oldmarker, oldtext @ [SPACE] @ line)]\<rparr>))
                         else Continue st))
               else read_marker_line ignoreSFMs st line)"

text \<open>The \<^verbatim>\<open>for\<close> loop inside the \<^verbatim>\<open>try\<close>: a \<^verbatim>\<open>UnicodeError\<close> raised by the
  iteration leaves the loop for the \<^verbatim>\<open>except\<close> clause; any other exception leaves
  \<^verbatim>\<open>read\<close>.\<close>

fun read_loop ::
  "int \<Rightarrow> bool \<Rightarrow> pystr list \<Rightarrow> read_state \<Rightarrow> file_item list \<Rightarrow> py_error + read_state" where
  "read_loop verbosityLevel utf8 ignoreSFMs st [] = Inr st"
| "read_loop verbosityLevel utf8 ignoreSFMs st (UnicodeError # rest) =
     Inr (st\<lparr>logged := logged st @ [CriticalInvalidLineIgnored (lineCount st)]\<rparr>)"
| "read_loop verbosityLevel utf8 ignoreSFMs st (Line line # rest) =
     (case read_line verbosityLevel utf8 ignoreSFMs st line of
        Raise e \<Rightarrow> Inl e
      | Continue st' \<Rightarrow> read_loop verbosityLevel utf8 ignoreSFMs st' rest)"

text \<open>\<^verbatim>\<open>USFMFile.read\<close>: the value assigned to \<^verbatim>\<open>self.lines\<close>, with what was logged.\<close>

definition read ::
  "int \<Rightarrow> bool \<Rightarrow> pystr list \<Rightarrow> file_item list
     \<Rightarrow> py_error + ((pystr \<times> pystr) list \<times> log_entry list)" where
  "read verbosityLevel utf8 ignoreSFMs ourFile =
     (case read_loop verbosityLevel utf8 ignoreSFMs
             \<lparr>lastLine = [], lineCount = 0, result = [], marker = None, logged = []\<rparr> ourFile of
        Inl e \<Rightarrow> Inl e
      | Inr st \<Rightarrow> Inr (result st, logged st))"

text \<open>The position of the first terminator, as the three searches and the minimum find it.\<close>

definition first_of :: "pystr \<Rightarrow> pychar \<Rightarrow> int" where
  "first_of s c = (if str_find s [c] = - 1 then DUMMY_VALUE else str_find s [c])"

text \<open>The characters that end a marker.\<close>

definition terminators :: "pychar set" where
  "terminators = {SPACE, ASTERISK, BACKSLASH}"


section \<open>OSISXMLBible.py: \<open>clean\<close>\<close>

text \<open>\<^verbatim>\<open>s.endswith(suffix)\<close>.\<close>

definition endswith :: "pystr \<Rightarrow> pystr \<Rightarrow> bool" where
  "endswith s suf = suffix suf s"

text \<open>\<^verbatim>\<open>s.replace(old, new)\<close>: the occurrences of \<open>old\<close> are found from the left
  and do not overlap; with an empty \<open>old\<close>, \<open>new\<close> is put around every character.\<close>

function replace :: "pystr \<Rightarrow> pystr \<Rightarrow> pystr \<Rightarrow> pystr" where
  "replace s old new =
     (if old = [] then new @ concat (map (\<lambda>c. c # new) s)
      else if s = [] then []
      else if prefix old s then new @ replace (drop (length old) s) old new
      else hd s # replace (tl s) old new)"
  by pat_completeness auto
termination
  by (relation "measure (\<lambda>(s, old, new). length s)") auto

declare replace.simps [simp del]

text \<open>
  The diagnostics of the OSIS loader.  The sources build each message with
  \<^verbatim>\<open>str.format\<close> (and \<^verbatim>\<open>repr\<close>, \<^verbatim>\<open>gettext\<close> and the debug prefix of \<^verbatim>\<open>t\<close>);
  a message is modelled by its format string, as a constructor, applied to the
  values formatted into it.  \<open>log_call\<close> is a call to \<^verbatim>\<open>logging\<close> with its level.
\<close>

type_synonym items = "(pystr \<times> pystr) list"

datatype diag =
    CleanFoundMultipleSpaces pystr pystr
  | CleanFoundTab pystr pystr
  | CleanFoundCRLF pystr pystr
  | UnprocessedAttribute pystr pystr pystr pystr
  | MissingChapterIDAttribute pystr items
  | UnexpectedChapterMilestone items pystr pystr
  | ChapterMilestoneEndDidntMatch pystr pystr pystr
  | UnrecognizedChapterMilestone pystr items
  | MissingChapterID pystr pystr
  | ChapterIDWrongFormat pystr pystr pystr
  | NotValidOSISBookIdentifier pystr
  | InvalidCombinedSIDAndEID pystr items
  | MissingVerseAttributes pystr items
  | GotVerseMilestoneWhileOpen pystr pystr pystr
  | VerseMilestoneSeemsWrong pystr pystr pystr
  | ThisVerseMilestoneSeemsWrong pystr pystr pystr
  | VerseMilestoneEndDidntMatch pystr pystr pystr
  | VerseEndButNoStart pystr pystr
  | UnrecognizedVerseMilestone pystr items
  | MultipleHyphensInVerseMilestone pystr
  | ExpectedThreeBeforeHyphen pystr
  | ExpectedThreeAfterHyphen pystr
  | External pystr pystr pystr
  | SaveBookOverwriting pystr

datatype level = Info | Warning | Error | Critical

type_synonym log_call = "level \<times> diag"

text \<open>The first loop of \<open>clean\<close>:
  \<^verbatim>\<open>while result.endswith('\n') or result.endswith('\r'): result = result[:-1]\<close>.\<close>

function drop_trailing_newlines :: "pystr \<Rightarrow> pystr" where
  "drop_trailing_newlines res =
     (if endswith res [NEWLINE] \<or> endswith res [CR]
      then drop_trailing_newlines (slice_to res (- 1)) else res)"
  by pat_completeness auto
termination
  by (relation "measure length")
     (auto simp: endswith_def slice_to_def slice_index_def suffix_def)

declare drop_trailing_newlines.simps [simp del]

lemma str_find_ge: "- 1 \<le> str_find s sub"
  by (induction s) (auto simp: Let_def)

lemma sublist_str_in: "str_in sub s \<longleftrightarrow> sublist sub s"
  unfolding str_in_def
proof (induction s)
  case Nil
  then show ?case by simp
next
  case (Cons x xs)
  have "- 1 \<le> str_find xs sub" by (rule str_find_ge)
  with Cons show ?case
    by (auto simp: Let_def sublist_Cons_right)
qed

lemma replace_Nil: "old \<noteq> [] \<Longrightarrow> replace [] old new = []"
  by (simp add: replace.simps)

lemma replace_Cons:
  "old \<noteq> [] \<Longrightarrow> replace (x # xs) old new =
     (if prefix old (x # xs) then new @ replace (drop (length old) (x # xs)) old new
      else x # replace xs old new)"
  by (subst replace.simps) simp

lemma length_replace_le:
  "old \<noteq> [] \<Longrightarrow> length new \<le> length old \<Longrightarrow> length (replace s old new) \<le> length s"
proof (induction s old new rule: replace.induct)
  case (1 s old new)
  show ?case
  proof (cases s)
    case Nil
    with 1 show ?thesis by (simp add: replace_Nil)
  next
    case (Cons x xs)
    show ?thesis
    proof (cases "prefix old s")
      case True
      then have "length old \<le> length s" by (rule prefix_length_le)
      with 1 True Cons show ?thesis
        by (simp add: replace_Cons del: Cons_prefix_Cons)
    next
      case False
      with 1 Cons show ?thesis
        by (simp add: replace_Cons del: Cons_prefix_Cons)
    qed
  qed
qed

lemma length_replace_less:
  "old \<noteq> [] \<Longrightarrow> length new < length old \<Longrightarrow> sublist old s \<Longrightarrow>
   length (replace s old new) < length s"
proof (induction s old new rule: replace.induct)
  case (1 s old new)
  show ?case
  proof (cases s)
    case Nil
    with 1 show ?thesis by simp
  next
    case (Cons x xs)
    show ?thesis
    proof (cases "prefix old s")
      case True
      then have le: "length old \<le> length s" by (rule prefix_length_le)
      have "length (replace (drop (length old) s) old new) \<le> length s - length old"
        using length_replace_le [of old new "drop (length old) s"] 1(3,4) by simp
      with 1(3,4) True Cons le show ?thesis
        by (simp add: replace_Cons del: Cons_prefix_Cons)
    next
      case False
      with 1(5) Cons have "sublist old xs"
        by (simp add: sublist_Cons_right)
      with 1 False Cons show ?thesis
        by (simp add: replace_Cons del: Cons_prefix_Cons)
    qed
  qed
qed

text \<open>The last loop of \<open>clean\<close>:
  \<^verbatim>\<open>while '  ' in result: result = result.replace( '  ', ' ' )\<close>.\<close>

function collapse_spaces :: "pystr \<Rightarrow> pystr" where
  "collapse_spaces res =
     (if str_in [SPACE, SPACE] res
      then collapse_spaces (replace res [SPACE, SPACE] [SPACE]) else res)"
  by pat_completeness auto
termination
  by (relation "measure length") (auto simp: sublist_str_in length_replace_less)

declare collapse_spaces.simps [simp del]

text \<open>\<^verbatim>\<open>clean( elementText, loadErrors=None, location=None, verseMilestone=None )\<close>
  returns the cleaned text; the model returns with it the list \<^verbatim>\<open>loadErrors\<close> as the
  call leaves it, and the calls to \<^verbatim>\<open>logging\<close>.\<close>

definition truthy :: "pystr option \<Rightarrow> bool" where
  "truthy x = (case x of None \<Rightarrow> False | Some s \<Rightarrow> s \<noteq> [])"

definition append_error :: "diag list option \<Rightarrow> diag \<Rightarrow> diag list option" where
  "append_error loadErrors errorMsg =
     (case loadErrors of None \<Rightarrow> None | Some l \<Rightarrow> Some (l @ [errorMsg]))"

definition clean ::
  "pystr option \<Rightarrow> diag list option \<Rightarrow> pystr option \<Rightarrow> pystr option
     \<Rightarrow> pystr option \<times> diag list option \<times> log_call list" where
  "clean elementText loadErrors location verseMilestone =
     (case elementText of
        None \<Rightarrow> (None, loadErrors, [])
      | Some text \<Rightarrow>
          let info = [];
              info = (if truthy location then info @ u '' at '' @ the location else info);
              info = (if truthy verseMilestone then info @ u '' at '' @ the verseMilestone
                      else info);
              result = drop_trailing_newlines text;
              (loadErrors, logged) =
                (if str_in [SPACE, SPACE] result
                 then (append_error loadErrors (CleanFoundMultipleSpaces result info),
                       [(Warning, CleanFoundMultipleSpaces result info)])
                 else (loadErrors, []));
              (result, loadErrors, logged) =
                (if str_in [TAB] result
                 then (replace result [TAB] [SPACE],
                       append_error loadErrors (CleanFoundTab result info),
                       logged @ [(Warning, CleanFoundTab result info)])
                 else (result, loadErrors, logged));
              (result, loadErrors, logged) =
                (if str_in [NEWLINE] result \<or> str_in [CR] result
                 then (replace (replace (replace result [CR, NEWLINE] [SPACE])
                                  [NEWLINE] [SPACE]) [CR] [SPACE],
                       append_error loadErrors (CleanFoundCRLF result info),
                       logged @ [(Error, CleanFoundCRLF result info)])
                 else (result, loadErrors, logged))
          in (Some (collapse_spaces result), loadErrors, logged))"






section \<open>InternalBible.py\<close>

text \<open>
  An \<^verbatim>\<open>OrderedDict\<close> (and a \<^verbatim>\<open>dict\<close>, which keeps insertion order as well) is a
  list of key and value pairs with distinct keys, in insertion order: \<^verbatim>\<open>d[k] = v\<close> is
  \<open>AList.update k v d\<close>, which replaces the value of a present key in place and puts
  a new key at the end; \<^verbatim>\<open>d[k]\<close> and \<^verbatim>\<open>k in d\<close> are \<open>map_of d k\<close>.
\<close>

type_synonym ('k, 'v) odict = "('k \<times> 'v) list"

text \<open>
  \<^verbatim>\<open>InternalBible.getVersification\<close>.  The books of \<^verbatim>\<open>self.books\<close> are objects of
  the class \<^verbatim>\<open>InternalBibleBook\<close>, which is not among the sources; the method
  \<^verbatim>\<open>getVersification\<close> of a book is the parameter \<open>bookVersification\<close>.
\<close>

fun getVersification_loop ::
  "('b \<Rightarrow> 'v \<times> 'o list \<times> 'c list \<times> 'r list) \<Rightarrow> (pystr, 'b) odict
     \<Rightarrow> (pystr, 'v) odict \<times> (pystr, 'o list) odict \<times> (pystr, 'c list) odict
         \<times> (pystr, 'r list) odict
     \<Rightarrow> (pystr, 'v) odict \<times> (pystr, 'o list) odict \<times> (pystr, 'c list) odict
         \<times> (pystr, 'r list) odict" where
  "getVersification_loop bookVersification [] totals = totals"
| "getVersification_loop bookVersification ((BBB, book) # rest)
       (totalVersification, totalOmittedVerses, totalCombinedVerses, totalReorderedVerses) =
     (case bookVersification book of
        (versification, omittedVerses, combinedVerses, reorderedVerses) \<Rightarrow>
          getVersification_loop bookVersification rest
            (AList.update BBB versification totalVersification,
             (if omittedVerses \<noteq> [] then AList.update BBB omittedVerses totalOmittedVerses
              else totalOmittedVerses),
             (if combinedVerses \<noteq> [] then AList.update BBB combinedVerses totalCombinedVerses
              else totalCombinedVerses),
             (if reorderedVerses \<noteq> [] then AList.update BBB reorderedVerses totalReorderedVerses
              else totalReorderedVerses)))"

definition getVersification ::
  "bool \<Rightarrow> ('b \<Rightarrow> 'v \<times> 'o list \<times> 'c list \<times> 'r list) \<Rightarrow> (pystr, 'b) odict
     \<Rightarrow> py_error + ((pystr, 'v) odict \<times> (pystr, 'o list) odict \<times> (pystr, 'c list) odict
         \<times> (pystr, 'r list) odict)" where
  "getVersification debugFlag bookVersification books =
     (if debugFlag \<and> books = [] then Inl AssertionError
      else Inr (getVersification_loop bookVersification books ([], [], [], [])))"

text \<open>\<^verbatim>\<open>InternalBible.getAddedUnits\<close>; the method \<^verbatim>\<open>getAddedUnits\<close> of a book is the
  parameter \<open>bookAddedUnits\<close>.  Each \<^verbatim>\<open>have...\<close> flag is kept with its dictionary.\<close>

fun getAddedUnits_loop ::
  "('b \<Rightarrow> 'p list \<times> 'q list \<times> 'h list \<times> 'r list \<times> 'w list) \<Rightarrow> (pystr, 'b) odict
     \<Rightarrow> (bool \<times> (pystr, 'p list) odict) \<times> (bool \<times> (pystr, 'q list) odict)
         \<times> (bool \<times> (pystr, 'h list) odict) \<times> (bool \<times> (pystr, 'r list) odict)
         \<times> (bool \<times> (pystr, 'w list) odict)
     \<Rightarrow> (bool \<times> (pystr, 'p list) odict) \<times> (bool \<times> (pystr, 'q list) odict)
         \<times> (bool \<times> (pystr, 'h list) odict) \<times> (bool \<times> (pystr, 'r list) odict)
         \<times> (bool \<times> (pystr, 'w list) odict)" where
  "getAddedUnits_loop bookAddedUnits [] totals = totals"
| "getAddedUnits_loop bookAddedUnits ((BBB, book) # rest)
       ((haveParagraphs, AllParagraphs), (haveQParagraphs, AllQParagraphs),
        (haveSectionHeadings, AllSectionHeadings), (haveSectionReferences, AllSectionReferences),
        (haveWordsOfJesus, AllWordsOfJesus)) =
     (case bookAddedUnits book of
        (paragraphReferences, qReferences, sectionHeadings, sectionReferences, wordsOfJesus) \<Rightarrow>
          getAddedUnits_loop bookAddedUnits rest
            ((haveParagraphs \<or> paragraphReferences \<noteq> [],
                AList.update BBB paragraphReferences AllParagraphs),
             (haveQParagraphs \<or> qReferences \<noteq> [],
                AList.update BBB qReferences AllQParagraphs),
             (haveSectionHeadings \<or> sectionHeadings \<noteq> [],
                AList.update BBB sectionHeadings AllSectionHeadings),
             (haveSectionReferences \<or> sectionReferences \<noteq> [],
                AList.update BBB sectionReferences AllSectionReferences),
             (haveWordsOfJesus \<or> wordsOfJesus \<noteq> [],
                AList.update BBB wordsOfJesus AllWordsOfJesus)))"

definition if_have :: "bool \<times> 'a \<Rightarrow> 'a option" where
  "if_have x = (if fst x then Some (snd x) else None)"

definition getAddedUnits ::
  "bool \<Rightarrow> ('b \<Rightarrow> 'p list \<times> 'q list \<times> 'h list \<times> 'r list \<times> 'w list) \<Rightarrow> (pystr, 'b) odict
     \<Rightarrow> py_error + ((pystr, 'p list) odict option \<times> (pystr, 'q list) odict option
         \<times> (pystr, 'h list) odict option \<times> (pystr, 'r list) odict option
         \<times> (pystr, 'w list) odict option)" where
  "getAddedUnits debugFlag bookAddedUnits books =
     (if debugFlag \<and> books = [] then Inl AssertionError
      else case getAddedUnits_loop bookAddedUnits books
                  ((False, []), (False, []), (False, []), (False, []), (False, [])) of
             (p, q, h, r, w) \<Rightarrow> Inr (if_have p, if_have q, if_have h, if_have r, if_have w))"

text \<open>What the claims say of the two results: a feature of the books, taken by
  \<open>sel\<close> from the result of the book's method, gathered with an entry for every
  book or only for the books that have some.\<close>

definition every_book :: "('b \<Rightarrow> 'a list) \<Rightarrow> (pystr, 'b) odict \<Rightarrow> (pystr, 'a list) odict" where
  "every_book sel books = map (\<lambda>(BBB, book). (BBB, sel book)) books"

definition books_with :: "('b \<Rightarrow> 'a list) \<Rightarrow> (pystr, 'b) odict \<Rightarrow> (pystr, 'a list) odict" where
  "books_with sel books = filter (\<lambda>(BBB, l). l \<noteq> []) (every_book sel books)"

definition None_if_absent ::
  "('b \<Rightarrow> 'a list) \<Rightarrow> (pystr, 'b) odict \<Rightarrow> (pystr, 'a list) odict option" where
  "None_if_absent sel books =
     (if books_with sel books = [] then None else Some (every_book sel books))"

subsection \<open>\<open>InternalBible.getErrors\<close>\<close>




































subsection \<open>The state of an \<open>InternalBible\<close>, \<open>saveBook\<close> and \<open>guessXRefBBB\<close>\<close>

text \<open>
  A book object.  The class \<^verbatim>\<open>InternalBibleBook\<close> is not among the sources; the loaders
  read and write its attributes \<^verbatim>\<open>BBB\<close>, \<^verbatim>\<open>_rawLines\<close> (a list of pairs of marker and
  text), \<^verbatim>\<open>objectNameString\<close> and \<^verbatim>\<open>objectTypeString\<close>.
\<close>

record book =
  book_BBB :: pystr
  book_rawLines :: "(pystr \<times> pystr) list"
  objectNameString :: pystr
  objectTypeString :: pystr

text \<open>
  The attributes of an \<^verbatim>\<open>InternalBible\<close> that the modelled methods use.  Book objects
  are shared (a book saved in \<^verbatim>\<open>self.books\<close> may still be \<^verbatim>\<open>self.thisBook\<close> of the
  loader), so they live in the store \<open>objects\<close> and are held by reference, the
  index of the object in the store; a new object is put at the end.
  \<open>self_logged\<close> collects the calls to \<^verbatim>\<open>logging\<close>.
\<close>

record internal_bible =
  objects :: "book list"
  self_books :: "(pystr, nat) odict"
  self_BBBToNameDict :: "(pystr, pystr) odict"
  self_bookNameDict :: "(pystr, pystr) odict"
  self_combinedBookNameDict :: "(pystr, pystr) odict"
  self_bookAbbrevDict :: "(pystr, pystr) odict"
  self_reverseDict :: "(pystr, pystr) odict"
  self_guesses :: pystr
  self_logged :: "log_call list"

definition object_at :: "'a internal_bible_scheme \<Rightarrow> nat \<Rightarrow> book option" where
  "object_at s r = (if r < length (objects s) then Some (objects s ! r) else None)"

text \<open>The loop of \<open>saveBook\<close> over the assumed book names.\<close>

fun saveBook_names ::
  "(pystr \<Rightarrow> pystr) \<Rightarrow> pystr \<Rightarrow> pystr list \<Rightarrow> 'a internal_bible_scheme
     \<Rightarrow> 'a internal_bible_scheme" where
  "saveBook_names lower bbb [] s = s"
| "saveBook_names lower bbb (assumedBookName # rest) s =
     (let s = s\<lparr>self_BBBToNameDict := AList.update bbb assumedBookName (self_BBBToNameDict s)\<rparr>;
          assumedBookNameLower = lower assumedBookName;
          s = s\<lparr>self_bookNameDict := AList.update assumedBookNameLower bbb (self_bookNameDict s)\<rparr>;
          s = s\<lparr>self_combinedBookNameDict :=
                   AList.update assumedBookNameLower bbb (self_combinedBookNameDict s)\<rparr>;
          s = (if SPACE \<in> set assumedBookNameLower
               then s\<lparr>self_combinedBookNameDict :=
                        AList.update (replace assumedBookNameLower [SPACE] []) bbb
                          (self_combinedBookNameDict s)\<rparr>
               else s)
      in saveBook_names lower bbb rest s)"

text \<open>
  \<^verbatim>\<open>InternalBible.saveBook( bookData )\<close>, for the reference \<open>bookData\<close> of a book
  object.  \<open>lower\<close> is \<^verbatim>\<open>str.lower\<close>; the method \<^verbatim>\<open>getAssumedBookNames\<close> of the book is
  the parameter \<open>getAssumedBookNames\<close>.  A reference without an object has no
  attribute \<^verbatim>\<open>BBB\<close>.
\<close>

definition saveBook ::
  "(pystr \<Rightarrow> pystr) \<Rightarrow> (book \<Rightarrow> pystr list) \<Rightarrow> nat \<Rightarrow> 'a internal_bible_scheme
     \<Rightarrow> py_error + 'a internal_bible_scheme" where
  "saveBook lower getAssumedBookNames bookData s =
     (case object_at s bookData of
        None \<Rightarrow> Inl AttributeError
      | Some b \<Rightarrow>
          let bbb = book_BBB b;
              s = (if map_of (self_books s) bbb \<noteq> None
                   then s\<lparr>self_logged := self_logged s @ [(Critical, SaveBookOverwriting bbb)]\<rparr>
                   else s);
              s = s\<lparr>self_books := AList.update bbb bookData (self_books s)\<rparr>
          in Inr (saveBook_names lower bbb (getAssumedBookNames b) s))"

text \<open>\<^verbatim>\<open>s.split()\<close>: the pieces between runs of white space.\<close>

definition whitespace :: "pychar set" where
  "whitespace = {9, 10, 11, 12, 13, 28, 29, 30, 31, 32, 133, 160, 5760, 8232, 8233, 8239, 8287, 12288}
                \<union> {8192 .. 8202}"

fun split_whitespace_from :: "pystr \<Rightarrow> pystr \<Rightarrow> pystr list" where
  "split_whitespace_from word [] = (if word = [] then [] else [word])"
| "split_whitespace_from word (c # cs) =
     (if c \<in> whitespace
      then (if word = [] then [] else [word]) @ split_whitespace_from [] cs
      else split_whitespace_from (word @ [c]) cs)"

definition split_whitespace :: "pystr \<Rightarrow> pystr list" where
  "split_whitespace s = split_whitespace_from [] s"

text \<open>\<^verbatim>\<open>s.startswith(p)\<close>.\<close>

definition startswith :: "pystr \<Rightarrow> pystr \<Rightarrow> bool" where
  "startswith s p = prefix p s"

text \<open>
  The parts of \<open>guessXRefBBB\<close>.  \<open>getBBB\<close> is \<^verbatim>\<open>BibleBooksCodes.getBBB\<close>, \<open>lower\<close> is
  \<^verbatim>\<open>str.lower\<close> and \<open>repr\<close> is \<^verbatim>\<open>repr\<close> on strings.

  The three lookups at the top: the table of book codes, then the two dictionaries
  under the lowercased string.  \<open>None\<close> when none of them answers.
\<close>

definition direct_lookup ::
  "(pystr \<Rightarrow> pystr option) \<Rightarrow> (pystr \<Rightarrow> pystr) \<Rightarrow> 'a internal_bible_scheme \<Rightarrow> pystr
     \<Rightarrow> (pystr \<times> 'a internal_bible_scheme) option" where
  "direct_lookup getBBB lower s referenceString =
     (case getBBB referenceString of
        Some res \<Rightarrow> Some (res, s)
      | None \<Rightarrow>
          let adjRefString = lower referenceString in
          (case map_of (self_combinedBookNameDict s) adjRefString of
             Some bbb \<Rightarrow>
               Some (bbb, s\<lparr>self_reverseDict :=
                               AList.update bbb referenceString (self_reverseDict s)\<rparr>)
           | None \<Rightarrow>
               (case map_of (self_bookAbbrevDict s) adjRefString of
                  Some bbb \<Rightarrow>
                    Some (bbb, s\<lparr>self_reverseDict :=
                                    AList.update bbb referenceString (self_reverseDict s)\<rparr>)
                | None \<Rightarrow> None)))"

text \<open>What a tier does when it has found exactly one book: remember the string in
  \<^verbatim>\<open>self.bookAbbrevDict\<close>, add a line to \<^verbatim>\<open>self.guesses\<close>, and (all tiers but the
  last) set \<^verbatim>\<open>self.reverseDict\<close>.\<close>

definition add_guess :: "pystr \<Rightarrow> 'a internal_bible_scheme \<Rightarrow> 'a internal_bible_scheme" where
  "add_guess line s =
     s\<lparr>self_guesses := self_guesses s @ (if self_guesses s \<noteq> [] then [NEWLINE] else []) @ line\<rparr>"

definition guessed ::
  "(pystr \<Rightarrow> pystr) \<Rightarrow> string \<Rightarrow> bool \<Rightarrow> pystr \<Rightarrow> pystr \<Rightarrow> pystr \<Rightarrow> 'a internal_bible_scheme
     \<Rightarrow> 'a internal_bible_scheme" where
  "guessed repr tier setReverse referenceString adjRefString bbb s =
     (let s = s\<lparr>self_bookAbbrevDict := AList.update adjRefString bbb (self_bookAbbrevDict s)\<rparr>;
          s = add_guess (u ''Guessed '' @ repr referenceString @ u '' to be '' @ bbb
                           @ u '' ('' @ u tier @ u '')'') s
      in if setReverse
         then s\<lparr>self_reverseDict := AList.update bbb referenceString (self_reverseDict s)\<rparr>
         else s)"

text \<open>The books of the dictionary \<open>d\<close> whose name starts with the string; the same,
  leaving out the books that are keys of \<^verbatim>\<open>self.reverseDict\<close>; and the books with a
  word that starts with the string, once for each such word.\<close>

definition starting_with :: "pystr \<Rightarrow> (pystr, pystr) odict \<Rightarrow> pystr list" where
  "starting_with adjRefString d =
     map snd (filter (\<lambda>(bookName, bbb). startswith bookName adjRefString) d)"

definition starting_with_unknown ::
  "pystr \<Rightarrow> (pystr, pystr) odict \<Rightarrow> (pystr, pystr) odict \<Rightarrow> pystr list" where
  "starting_with_unknown adjRefString reverseDict d =
     filter (\<lambda>bbbx. map_of reverseDict bbbx = None) (starting_with adjRefString d)"

definition word_starting_with :: "pystr \<Rightarrow> (pystr, pystr) odict \<Rightarrow> pystr list" where
  "word_starting_with adjRefString d =
     concat (map (\<lambda>(bookName, bbb).
        if SPACE \<in> set bookName
        then map (\<lambda>bit. bbb) (filter (\<lambda>bit. startswith bit adjRefString) (split_whitespace bookName))
        else []) d)"

text \<open>The last tier: the first letters agree and every other letter of the string
  occurs in the rest of the name.  An empty name reaches \<^verbatim>\<open>halt\<close>, an undefined
  name; an empty string has no first letter.\<close>

fun first_letter_plus :: "pystr \<Rightarrow> (pystr, pystr) odict \<Rightarrow> py_error + pystr list" where
  "first_letter_plus adjRefString [] = Inr []"
| "first_letter_plus adjRefString ((bookName, bbb) # rest) =
     (if bookName = [] then Inl NameError
      else if adjRefString = [] then Inl IndexError
      else
        (case first_letter_plus adjRefString rest of
           Inl e \<Rightarrow> Inl e
         | Inr found \<Rightarrow>
             if hd adjRefString = hd bookName
                \<and> list_all (\<lambda>c. c \<in> set (tl bookName)) (tl adjRefString)
             then Inr (bbb # found) else Inr found))"

text \<open>The tiers of \<open>guessXRefBBB\<close> after the lookups and the program check.\<close>

definition scan_tiers ::
  "(pystr \<Rightarrow> pystr) \<Rightarrow> 'a internal_bible_scheme \<Rightarrow> pystr \<Rightarrow> pystr
     \<Rightarrow> py_error + (pystr option \<times> 'a internal_bible_scheme)" where
  "scan_tiers repr s referenceString adjRefString =
     (let found1 = starting_with adjRefString (self_bookNameDict s);
          second = starting_with_unknown adjRefString (self_reverseDict s) (self_bookNameDict s)
      in
      if length found1 = 1 then
        Inr (Some (hd found1),
             guessed repr ''startswith1'' True referenceString adjRefString (hd found1) s)
      else if length found1 = 2 \<and> length second = 1 then
        Inr (Some (hd second),
             guessed repr ''startswith1SECOND'' True referenceString adjRefString (hd second) s)
      else
        let found2 = (if length found1 = 0
                      then starting_with adjRefString (self_combinedBookNameDict s) else found1)
        in
        if length found1 = 0 \<and> length found2 = 1 then
          Inr (Some (hd found2),
               guessed repr ''startswith2'' True referenceString adjRefString (hd found2) s)
        else if length found1 = 2 \<and> length second = 1 then
          Inr (Some (hd second),
               guessed repr ''startswith2SECOND'' True referenceString adjRefString (hd second) s)
        else
          let found3 = (if length found2 = 0
                        then word_starting_with adjRefString (self_bookNameDict s) else found2)
          in
          if length found2 = 0 \<and> length found3 = 1 then
            Inr (Some (hd found3),
                 guessed repr ''word startswith'' True referenceString adjRefString (hd found3) s)
          else
            (case (if length found3 = 0
                   then first_letter_plus adjRefString (self_bookNameDict s) else Inr found3) of
               Inl e \<Rightarrow> Inl e
             | Inr found4 \<Rightarrow>
                 if length found3 = 0 \<and> length found4 = 1 then
                   Inr (Some (hd found4),
                        guessed repr ''firstletter+'' False referenceString adjRefString
                          (hd found4) s)
                 else
                   let string = u ''Couldn't guess '' @ repr (slice_to referenceString 5)
                   in Inr (None, if \<not> str_in string (self_guesses s) then add_guess string s
                                 else s)))"

text \<open>\<^verbatim>\<open>InternalBible.guessXRefBBB( referenceString )\<close>.\<close>

definition guessXRefBBB ::
  "bool \<Rightarrow> (pystr \<Rightarrow> pystr option) \<Rightarrow> (pystr \<Rightarrow> pystr) \<Rightarrow> (pystr \<Rightarrow> pystr)
     \<Rightarrow> 'a internal_bible_scheme \<Rightarrow> pystr \<Rightarrow> py_error + (pystr option \<times> 'a internal_bible_scheme)" where
  "guessXRefBBB debugFlag getBBB lower repr s referenceString =
     (if debugFlag \<and> referenceString = [] then Inl AssertionError
      else
        (case direct_lookup getBBB lower s referenceString of
           Some (bbb, s') \<Rightarrow> Inr (Some bbb, s')
         | None \<Rightarrow>
             if list_ex (\<lambda>(bbb, r). r = referenceString) (self_reverseDict s)
             then Inl AssertionError
             else scan_tiers repr s referenceString (lower referenceString)))"

definition empty_bible :: internal_bible where
  "empty_bible = \<lparr>objects = [], self_books = [], self_BBBToNameDict = [],
     self_bookNameDict = [], self_combinedBookNameDict = [], self_bookAbbrevDict = [],
     self_reverseDict = [], self_guesses = [], self_logged = []\<rparr>"

text \<open>For the examples: a table of book codes that knows the one code \<^verbatim>\<open>GEN\<close>,
  \<^verbatim>\<open>str.lower\<close> and \<^verbatim>\<open>repr\<close> as they are on plain ASCII letters, and a Bible that
  knows the names of two books.\<close>

definition only_GEN :: "pystr \<Rightarrow> pystr option" where
  "only_GEN referenceString = (if referenceString = u ''GEN'' then Some (u ''GEN'') else None)"

definition ascii_lower :: "pystr \<Rightarrow> pystr" where
  "ascii_lower s = map (\<lambda>c. if 65 \<le> c \<and> c \<le> 90 then c + 32 else c) s"

definition ascii_repr :: "pystr \<Rightarrow> pystr" where
  "ascii_repr s = [39] @ s @ [39]"

definition two_names :: internal_bible where
  "two_names = empty_bible
     \<lparr>self_bookNameDict := [(u ''genesis'', u ''GEN''), (u ''exodus'', u ''EXO'')],
      self_combinedBookNameDict := [(u ''genesis'', u ''GEN''), (u ''exodus'', u ''EXO'')]\<rparr>"

section \<open>OSISXMLBible.py: chapter and verse elements\<close>

text \<open>An element of the XML tree: its tag, its attributes in the order of
  \<^verbatim>\<open>element.items()\<close>, its text and tail (\<open>None\<close> when absent) and the number of its
  subelements, \<^verbatim>\<open>len(element)\<close>.\<close>

record element =
  el_tag :: pystr
  el_items :: items
  el_text :: "pystr option"
  el_tail :: "pystr option"
  el_len :: nat

text \<open>What \<^verbatim>\<open>BibleBooksCodes.getBBBFromOSIS\<close> returns: a book code or a list of
  alternatives.\<close>

datatype bbb = BBBStr pystr | BBBList "pystr list"

text \<open>
  The names the loader takes from modules that are not among the sources:
  \<^verbatim>\<open>BibleOrgSysGlobals.debugFlag\<close>; the lookups of \<^verbatim>\<open>BibleBooksCodes\<close>
  (\<open>getBBBFromOSIS\<close> gives \<open>None\<close> where the lookup raises \<^verbatim>\<open>KeyError\<close>);
  \<^verbatim>\<open>checkXMLNoText\<close> and \<^verbatim>\<open>checkXMLNoTail\<close>, given by the diagnostics they log and
  append to \<^verbatim>\<open>loadErrors\<close> for an element, a location and an id; the string methods
  \<^verbatim>\<open>lower\<close>, \<^verbatim>\<open>upper\<close> and \<^verbatim>\<open>isdigit\<close>; and the method \<^verbatim>\<open>getAssumedBookNames\<close> of a
  book.
\<close>

record env =
  debug_flag :: bool
  getBBBFromOSIS :: "pystr \<Rightarrow> bbb option"
  getUSFMAbbreviation :: "pystr \<Rightarrow> pystr option"
  getUSFMNumber :: "pystr \<Rightarrow> pystr option"
  checkXMLNoText :: "element \<Rightarrow> pystr \<Rightarrow> pystr \<Rightarrow> log_call list"
  checkXMLNoTail :: "element \<Rightarrow> pystr \<Rightarrow> pystr \<Rightarrow> log_call list"
  str_lower :: "pystr \<Rightarrow> pystr"
  str_upper :: "pystr \<Rightarrow> pystr"
  str_isdigit :: "pystr \<Rightarrow> bool"
  assumedBookNames :: "book \<Rightarrow> pystr list"

text \<open>
  The state of the loader while \<^verbatim>\<open>validateAndExtractBookDiv\<close> runs: the attributes
  of the \<^verbatim>\<open>OSISXMLBible\<close> object, which is an \<^verbatim>\<open>InternalBible\<close>, and the variables of
  \<^verbatim>\<open>validateAndExtractBookDiv\<close> that its nested functions read and assign
  (\<^verbatim>\<open>nonlocal\<close>).  \<open>self_thisBook\<close> is \<open>None\<close> while the attribute does not exist.
\<close>

record loader = internal_bible +
  self_thisBook :: "nat option"
  self_haveBook :: bool
  self_source :: "pystr option"
  var_BBB :: pystr
  var_USFMAbbreviation :: "pystr option"
  var_USFMNumber :: "pystr option"
  var_mainDivOsisID :: "pystr option"
  var_haveEIDs :: bool
  var_loadErrors :: "diag list"

definition log_only :: "level \<Rightarrow> diag \<Rightarrow> loader \<Rightarrow> loader" where
  "log_only lvl d st = st\<lparr>self_logged := self_logged st @ [(lvl, d)]\<rparr>"

text \<open>A call to \<^verbatim>\<open>logging\<close> followed by \<^verbatim>\<open>loadErrors.append\<close> of the same message.\<close>

definition log_both :: "level \<Rightarrow> diag \<Rightarrow> loader \<Rightarrow> loader" where
  "log_both lvl d st =
     st\<lparr>self_logged := self_logged st @ [(lvl, d)], var_loadErrors := var_loadErrors st @ [d]\<rparr>"

definition report :: "log_call list \<Rightarrow> loader \<Rightarrow> loader" where
  "report ds st =
     st\<lparr>self_logged := self_logged st @ ds, var_loadErrors := var_loadErrors st @ map snd ds\<rparr>"

text \<open>
  Modelled from the spec: the class of the book objects, with its constructor and
  its methods \<^verbatim>\<open>addLine\<close> and \<^verbatim>\<open>appendToLastLine\<close>, is not among the sources.  The
  spec has a book created empty, \<^verbatim>\<open>addLine(marker, text)\<close> append a new line without
  any validation, and \<^verbatim>\<open>appendToLastLine(text)\<close> concatenate onto the text of the most
  recent line and fail silently when there is no line yet.
\<close>

definition BibleBook :: "pystr \<Rightarrow> book" where
  "BibleBook bbb = \<lparr>book_BBB = bbb, book_rawLines = [], objectNameString = [],
                     objectTypeString = []\<rparr>"

definition addLine :: "pystr \<Rightarrow> pystr \<Rightarrow> book \<Rightarrow> book" where
  "addLine marker' text b = b\<lparr>book_rawLines := book_rawLines b @ [(marker', text)]\<rparr>"

definition appendToLastLine :: "pystr \<Rightarrow> book \<Rightarrow> book" where
  "appendToLastLine text b =
     (if book_rawLines b = [] then b
      else b\<lparr>book_rawLines := butlast (book_rawLines b)
                @ [(fst (last (book_rawLines b)), snd (last (book_rawLines b)) @ text)]\<rparr>)"

text \<open>A method call on \<^verbatim>\<open>self.thisBook\<close>: the object is changed in the store.\<close>

definition on_thisBook :: "(book \<Rightarrow> book) \<Rightarrow> loader \<Rightarrow> py_error + loader" where
  "on_thisBook f st =
     (case self_thisBook st of
        None \<Rightarrow> Inl AttributeError
      | Some r \<Rightarrow>
          (case object_at st r of
             None \<Rightarrow> Inl AttributeError
           | Some b \<Rightarrow> Inr (st\<lparr>objects := (objects st)[r := f b]\<rparr>)))"

text \<open>\<^verbatim>\<open>s.split(sep)\<close> for a separator of one character, and \<^verbatim>\<open>xs[i]\<close>.\<close>

fun split_on :: "pychar \<Rightarrow> pystr \<Rightarrow> pystr list" where
  "split_on sep [] = [[]]"
| "split_on sep (c # cs) =
     (if c = sep then [] # split_on sep cs
      else (case split_on sep cs of [] \<Rightarrow> [[c]] | p # ps \<Rightarrow> (c # p) # ps))"

definition index :: "'a list \<Rightarrow> nat \<Rightarrow> py_error + 'a" where
  "index xs i = (if i < length xs then Inr (xs ! i) else Inl IndexError)"

definition OSISNameSpace :: pystr where
  "OSISNameSpace = u ''{http://www.bibletechnologies.net/2003/OSIS/namespace}''"

definition displayTag :: "element \<Rightarrow> pystr" where
  "displayTag element =
     (if startswith (el_tag element) OSISNameSpace
      then slice_from (el_tag element) (int (length OSISNameSpace)) else el_tag element)"

definition ProgName :: pystr where
  "ProgName = u ''OSIS XML Bible format handler''"

definition ProgVersion :: pystr where
  "ProgVersion = u ''0.47''"

text \<open>The attributes both functions collect from \<^verbatim>\<open>element.items()\<close>; \<open>attr_osisID\<close>
  is \<^verbatim>\<open>OSISChapterID\<close> or \<^verbatim>\<open>OSISVerseID\<close>, \<open>attr_n\<close> is \<^verbatim>\<open>chapterN\<close> or \<^verbatim>\<open>n\<close>.\<close>

record attrs =
  attr_osisID :: "pystr option"
  attr_sID :: "pystr option"
  attr_eID :: "pystr option"
  attr_n :: "pystr option"
  attr_canonical :: "pystr option"
  attr_chapterTitle :: "pystr option"

definition no_attrs :: attrs where
  "no_attrs = \<lparr>attr_osisID = None, attr_sID = None, attr_eID = None, attr_n = None,
                attr_canonical = None, attr_chapterTitle = None\<rparr>"

subsection \<open>\<open>validateChapterElement\<close>\<close>

fun chapter_attributes ::
  "pystr \<Rightarrow> element \<Rightarrow> items \<Rightarrow> attrs \<times> loader \<Rightarrow> attrs \<times> loader" where
  "chapter_attributes location element [] acc = acc"
| "chapter_attributes location element ((attrib, v) # rest) (a, st) =
     chapter_attributes location element rest
       (if attrib = u ''osisID'' then (a\<lparr>attr_osisID := Some v\<rparr>, st)
        else if attrib = u ''sID'' then (a\<lparr>attr_sID := Some v\<rparr>, st)
        else if attrib = u ''eID'' then (a\<lparr>attr_eID := Some v\<rparr>, st)
        else if attrib = u ''n'' then (a\<lparr>attr_n := Some v\<rparr>, st)
        else if attrib = u ''canonical'' then (a\<lparr>attr_canonical := Some v\<rparr>, st)
        else if attrib = u ''chapterTitle'' then (a\<lparr>attr_chapterTitle := Some v\<rparr>, st)
        else (a, log_both Warning (UnprocessedAttribute attrib v (displayTag element) location) st))"

text \<open>The \<^verbatim>\<open>if\<close>/\<^verbatim>\<open>elif\<close> chain of a chapter milestone (lines 986 to 1000), which
  gives the new value of \<^verbatim>\<open>chapterMilestone\<close>.\<close>

definition chapter_cursor ::
  "env \<Rightarrow> element \<Rightarrow> attrs \<Rightarrow> pystr \<Rightarrow> pystr \<Rightarrow> loader \<Rightarrow> py_error + (pystr \<times> loader)" where
  "chapter_cursor env element a chapterMilestone location st =
     (if truthy (attr_osisID a) \<and> truthy (attr_sID a) \<and> \<not> truthy (attr_eID a) then
        Inr (the (attr_sID a), st)
      else if truthy (attr_eID a) \<and> \<not> truthy (attr_osisID a) \<and> \<not> truthy (attr_sID a) then
        (if chapterMilestone \<noteq> [] \<and> the (attr_eID a) = chapterMilestone then Inr ([], st)
         else Inr (chapterMilestone,
                   log_both Error
                     (ChapterMilestoneEndDidntMatch (the (attr_eID a)) chapterMilestone location)
                     st))
      else if truthy (attr_osisID a) \<and> \<not> (truthy (attr_sID a) \<or> truthy (attr_eID a)) then
        (if debug_flag env \<and> attr_canonical a \<noteq> Some (u ''true'') then Inl AssertionError
         else Inr (the (attr_osisID a), st))
      else Inr (chapterMilestone,
                log_both Error (UnrecognizedChapterMilestone location (el_items element)) st))"

text \<open>The book code for the first part of the chapter ID (lines 1012 to 1020): the
  code as a string, or \<open>None\<close> for a value that is false in a condition.\<close>

definition chapter_book :: "env \<Rightarrow> pystr \<Rightarrow> loader \<Rightarrow> pystr option \<times> loader" where
  "chapter_book env osisBook st =
     (case getBBBFromOSIS env osisBook of
        None \<Rightarrow> (None, log_both Critical (NotValidOSISBookIdentifier osisBook) st)
      | Some (BBBStr s) \<Rightarrow> (if s = [] then None else Some s, st)
      | Some (BBBList []) \<Rightarrow> (None, st)
      | Some (BBBList (x # xs)) \<Rightarrow> (if x = [] then None else Some x, st))"

text \<open>Saving the previous book (lines 1024 to 1059), for the object \<open>b\<close> at the
  reference \<open>r\<close> of \<^verbatim>\<open>self.thisBook\<close>.\<close>

definition save_previous_book :: "env \<Rightarrow> nat \<Rightarrow> book \<Rightarrow> loader \<Rightarrow> py_error + loader" where
  "save_previous_book env r b st =
     (let lastLineTuple = last (book_rawLines b);
          keep = (fst lastLineTuple \<noteq> u ''s'');
          st = (if keep then st
                else st\<lparr>objects := (objects st)[r := b\<lparr>book_rawLines := butlast (book_rawLines b)\<rparr>]\<rparr>)
      in case saveBook (str_lower env) (assumedBookNames env) r st of
           Inl e \<Rightarrow> Inl e
         | Inr st \<Rightarrow>
             if keep then Inr st
             else if \<not> truthy (var_USFMAbbreviation st) \<and> var_mainDivOsisID st = None
             then Inl AttributeError
             else
               let name = (if truthy (var_USFMAbbreviation st) then the (var_USFMAbbreviation st)
                           else the (var_mainDivOsisID st))
               in case on_thisBook
                         (addLine (u ''id'')
                            (str_upper env name @ u '' converted to USFM from OSIS by ''
                               @ ProgName @ u '' V'' @ ProgVersion)) st of
                    Inl e \<Rightarrow> Inl e
                  | Inr st \<Rightarrow>
                      (case on_thisBook (addLine (u ''h'') name) st of
                         Inl e \<Rightarrow> Inl e
                       | Inr st \<Rightarrow> on_thisBook (addLine (u ''mt1'') (snd lastLineTuple)) st))"

text \<open>Starting on a new book (lines 1021 to 1068): the result is the value of
  \<^verbatim>\<open>chapterMilestone\<close> and the state.\<close>

definition start_new_book ::
  "env \<Rightarrow> pystr \<Rightarrow> pystr \<Rightarrow> loader \<Rightarrow> py_error + (pystr \<times> loader)" where
  "start_new_book env cmBBB chapterMilestone st =
     (case self_thisBook st of
        None \<Rightarrow> Inl AttributeError
      | Some r \<Rightarrow>
          (case object_at st r of
             None \<Rightarrow> Inl AttributeError
           | Some b \<Rightarrow>
               (case (if var_BBB st \<noteq> [] \<and> length (book_rawLines b) > 5
                      then (case save_previous_book env r b st of
                              Inl e \<Rightarrow> Inl e | Inr st \<Rightarrow> Inr ([], st))
                      else Inr (chapterMilestone, st)) of
                  Inl e \<Rightarrow> Inl e
                | Inr (chapterMilestone, st) \<Rightarrow>
                    Inr (chapterMilestone,
                         st\<lparr>var_BBB := cmBBB,
                            var_USFMAbbreviation := getUSFMAbbreviation env cmBBB,
                            var_USFMNumber := getUSFMNumber env cmBBB,
                            objects := objects st
                              @ [(BibleBook cmBBB)
                                   \<lparr>objectNameString := u ''OSIS XML Bible Book object'',
                                    objectTypeString := u ''OSIS''\<rparr>],
                            self_thisBook := Some (length (objects st)),
                            self_haveBook := True\<rparr>))))"

text \<open>The block for an open chapter milestone (lines 1002 to 1069).\<close>

definition chapter_line ::
  "env \<Rightarrow> attrs \<Rightarrow> pystr \<Rightarrow> pystr \<Rightarrow> loader \<Rightarrow> py_error + (pystr \<times> loader)" where
  "chapter_line env a chapterMilestone location st =
     (if \<not> truthy (attr_osisID a) then
        Inr (chapterMilestone, log_both Error (MissingChapterID chapterMilestone location) st)
      else
        let OSISChapterID = the (attr_osisID a);
            st = (if count_list OSISChapterID DOT \<noteq> 1
                  then log_both Error
                         (ChapterIDWrongFormat OSISChapterID chapterMilestone location) st
                  else st);
            bits = split_on DOT OSISChapterID
        in if debug_flag env \<and> length bits \<noteq> 2 then Inl AssertionError
           else
             (case chapter_book env (hd bits) st of
                (cmBBB, st) \<Rightarrow>
                  (case (if cmBBB \<noteq> None \<and> the cmBBB \<noteq> var_BBB st
                         then start_new_book env (the cmBBB) chapterMilestone st
                         else Inr (chapterMilestone, st)) of
                     Inl e \<Rightarrow> Inl e
                   | Inr (chapterMilestone, st) \<Rightarrow>
                       if self_thisBook st = None then Inl AttributeError
                       else
                         (case index bits 1 of
                            Inl e \<Rightarrow> Inl e
                          | Inr chapter \<Rightarrow>
                              (case on_thisBook (addLine (u ''c'') chapter) st of
                                 Inl e \<Rightarrow> Inl e
                               | Inr st \<Rightarrow> Inr (chapterMilestone, st))))))"

text \<open>\<^verbatim>\<open>validateChapterElement( element, chapterMilestone, verseMilestone,
  locationDescription )\<close>: the string returned, with the state.\<close>

definition validateChapterElement ::
  "env \<Rightarrow> element \<Rightarrow> pystr \<Rightarrow> pystr \<Rightarrow> pystr \<Rightarrow> loader \<Rightarrow> py_error + (pystr \<times> loader)" where
  "validateChapterElement env element chapterMilestone verseMilestone locationDescription st =
     (let location = u ''validateChapterElement: '' @ locationDescription;
          st = report (checkXMLNoText env element (location @ u '' at '' @ verseMilestone)
                         (u ''s2a8'')) st;
          st = report (checkXMLNoTail env element (location @ u '' at '' @ verseMilestone)
                         (u ''j9k7'')) st
      in case chapter_attributes location element (el_items element) (no_attrs, st) of
        (a, st) \<Rightarrow>
          let st = (if truthy (attr_sID a) \<and> \<not> truthy (attr_osisID a)
                    then log_both Error (MissingChapterIDAttribute location (el_items element)) st
                    else st)
          in
          if el_len element = 0
             \<and> (truthy (attr_sID a) \<or> truthy (attr_eID a) \<or> truthy (attr_osisID a))
          then
            let st = (if verseMilestone \<noteq> [] \<and> var_haveEIDs st
                      then log_both Error
                             (UnexpectedChapterMilestone (el_items element) verseMilestone location)
                             st
                      else st)
            in (case chapter_cursor env element a chapterMilestone location st of
                  Inl e \<Rightarrow> Inl e
                | Inr (chapterMilestone, st) \<Rightarrow>
                    if chapterMilestone \<noteq> [] then chapter_line env a chapterMilestone location st
                    else Inr (chapterMilestone, st))
          else
            (case attr_osisID a of
               None \<Rightarrow> Inl AttributeError
             | Some OSISChapterID \<Rightarrow>
                 let bits = split_on DOT OSISChapterID
                 in if debug_flag env
                       \<and> \<not> (length bits = 2 \<and> str_isdigit env (bits ! 1))
                    then Inl AssertionError
                    else Inr (u ''chapterContainer.'' @ OSISChapterID, st)))"

subsection \<open>\<open>validateVerseElement\<close>\<close>

fun verse_attributes ::
  "pystr \<Rightarrow> element \<Rightarrow> items \<Rightarrow> attrs \<times> loader \<Rightarrow> attrs \<times> loader" where
  "verse_attributes location element [] acc = acc"
| "verse_attributes location element ((attrib, v) # rest) (a, st) =
     verse_attributes location element rest
       (if attrib = u ''osisID'' then (a\<lparr>attr_osisID := Some v\<rparr>, st)
        else if attrib = u ''sID'' then (a\<lparr>attr_sID := Some v\<rparr>, st)
        else if attrib = u ''eID'' then (a\<lparr>attr_eID := Some v\<rparr>, st)
        else if attrib = u ''n'' then (a\<lparr>attr_n := Some v\<rparr>, st)
        else (a, log_both Warning (UnprocessedAttribute attrib v (displayTag element) location) st))"

text \<open>A verse start milestone (lines 1125 to 1144): the diagnostics for a milestone
  that is still open and for a verse that does not fit the chapter.\<close>

definition verse_start :: "pystr \<Rightarrow> pystr \<Rightarrow> pystr \<Rightarrow> pystr \<Rightarrow> loader \<Rightarrow> loader" where
  "verse_start sID verseMilestone chapterMilestone location st =
     (let st = (if verseMilestone \<noteq> [] \<and> var_haveEIDs st
                then log_both Error (GotVerseMilestoneWhileOpen sID verseMilestone location) st
                else st);
          verseMilestone = sID;
          vmBits = split_on DOT verseMilestone;
          cmBits = split_on DOT chapterMilestone
      in if startswith chapterMilestone (u ''chapterContainer.'') then
           (if \<not> startswith verseMilestone (slice_from chapterMilestone 17)
            then log_both Error
                   (VerseMilestoneSeemsWrong verseMilestone chapterMilestone location) st
            else st)
         else if slice_to vmBits 2 \<noteq> slice_to cmBits 2 then
           log_both Error (ThisVerseMilestoneSeemsWrong verseMilestone chapterMilestone location) st
         else st)"

text \<open>A verse end milestone (lines 1145 to 1156): the function returns the empty
  string after it.\<close>

definition verse_end :: "pystr \<Rightarrow> pystr \<Rightarrow> pystr \<Rightarrow> loader \<Rightarrow> loader" where
  "verse_end eID verseMilestone location st =
     (let st = st\<lparr>var_haveEIDs := True\<rparr>
      in if verseMilestone \<noteq> [] then
           (if eID = verseMilestone then st
            else log_both Error (VerseMilestoneEndDidntMatch verseMilestone eID location) st)
         else log_both Critical (VerseEndButNoStart eID location) st)"

text \<open>The \<^verbatim>\<open>v\<close> line for an open verse milestone (lines 1164 to 1184).\<close>

definition verse_line :: "env \<Rightarrow> pystr \<Rightarrow> loader \<Rightarrow> py_error + loader" where
  "verse_line env verseMilestone st =
     (if debug_flag env \<and> SPACE \<in> set verseMilestone then Inl AssertionError
      else if HYPHEN \<in> set verseMilestone then
        let chunks = split_on HYPHEN verseMilestone;
            st = (if length chunks \<noteq> 2
                  then log_both Error (MultipleHyphensInVerseMilestone verseMilestone) st else st)
        in (case index chunks 0 of
              Inl e \<Rightarrow> Inl e
            | Inr chunk0 \<Rightarrow>
                let bits1 = split_on DOT chunk0;
                    st = (if length bits1 \<noteq> 3
                          then log_both Error (ExpectedThreeBeforeHyphen verseMilestone) st
                          else st)
                in (case index chunks 1 of
                      Inl e \<Rightarrow> Inl e
                    | Inr chunk1 \<Rightarrow>
                        let bits2 = split_on DOT chunk1 in
                        (case (if length bits2 \<noteq> 3 then
                                 (case index bits1 0 of
                                    Inl e \<Rightarrow> Inl e
                                  | Inr b0 \<Rightarrow>
                                      (case index bits1 1 of
                                         Inl e \<Rightarrow> Inl e
                                       | Inr b1 \<Rightarrow>
                                           Inr ([b0, b1, u ''999''],
                                                log_both Error
                                                  (ExpectedThreeAfterHyphen verseMilestone) st)))
                               else Inr (bits2, st)) of
                           Inl e \<Rightarrow> Inl e
                         | Inr (bits2, st) \<Rightarrow>
                             if self_thisBook st = None then Inl AttributeError
                             else
                               (case index bits1 2 of
                                  Inl e \<Rightarrow> Inl e
                                | Inr v1 \<Rightarrow>
                                    (case index bits2 2 of
                                       Inl e \<Rightarrow> Inl e
                                     | Inr v2 \<Rightarrow>
                                         on_thisBook (addLine (u ''v'') (v1 @ [HYPHEN] @ v2)) st)))))
      else
        let bits = split_on DOT verseMilestone
        in if debug_flag env \<and> length bits < 3 then Inl AssertionError
           else if self_thisBook st = None then Inl AttributeError
           else (case index bits 2 of
                   Inl e \<Rightarrow> Inl e
                 | Inr v \<Rightarrow> on_thisBook (addLine (u ''v'') (v @ [SPACE])) st))"

text \<open>\<^verbatim>\<open>s.strip()\<close> and \<^verbatim>\<open>s.lstrip()\<close>.\<close>

definition lstrip :: "pystr \<Rightarrow> pystr" where
  "lstrip s = dropWhile (\<lambda>c. c \<in> whitespace) s"

definition strip :: "pystr \<Rightarrow> pystr" where
  "strip s = rev (dropWhile (\<lambda>c. c \<in> whitespace) (rev (lstrip s)))"

text \<open>A verse element that is a container (lines 1191 to 1204).\<close>

definition verse_container ::
  "env \<Rightarrow> element \<Rightarrow> attrs \<Rightarrow> pystr \<Rightarrow> pystr \<Rightarrow> loader \<Rightarrow> py_error + (pystr \<times> loader)" where
  "verse_container env element a verseMilestone location st =
     (let st = report (checkXMLNoTail env element (location @ u '' at '' @ verseMilestone)
                         (u ''s2d4'')) st
      in case attr_osisID a of
           None \<Rightarrow> Inl AttributeError
         | Some OSISVerseID \<Rightarrow>
             let bits = split_on DOT OSISVerseID
             in if debug_flag env
                   \<and> \<not> (length bits = 3 \<and> str_isdigit env (bits ! 1) \<and> str_isdigit env (bits ! 2))
                then Inl AssertionError
                else
                  (case el_text element of
                     None \<Rightarrow> Inl AttributeError
                   | Some verseText \<Rightarrow>
                       if strip verseText \<noteq> [] then
                         let verseText =
                               (if self_source st
                                   = Some (u ''ftp://unboundftp.biola.edu/pub/albanian_utf8.zip'')
                                then replace (replace (replace (lstrip verseText)
                                        (u ''&quot;'') [34]) (u ''&lt;'') (u ''<''))
                                        (u ''&gt;'') (u ''>'')
                                else verseText)
                         in (case index bits 2 of
                               Inl e \<Rightarrow> Inl e
                             | Inr v \<Rightarrow>
                                 Inr (u ''verseContents#'' @ v @ u ''#'' @ verseText, st))
                       else
                         (case index bits 2 of
                            Inl e \<Rightarrow> Inl e
                          | Inr v \<Rightarrow> Inr (u ''verseContainer.'' @ v, st))))"

text \<open>\<^verbatim>\<open>validateVerseElement( element, verseMilestone, chapterMilestone,
  locationDescription )\<close>: the string returned, with the state.  The branch for an
  unrecognized milestone ends in \<^verbatim>\<open>halt\<close>, a name that is not defined.\<close>

definition validateVerseElement ::
  "env \<Rightarrow> element \<Rightarrow> pystr \<Rightarrow> pystr \<Rightarrow> pystr \<Rightarrow> loader \<Rightarrow> py_error + (pystr \<times> loader)" where
  "validateVerseElement env element verseMilestone chapterMilestone locationDescription st =
     (let location = u ''validateVerseElement: '' @ locationDescription;
          verseText = el_text element
      in case verse_attributes location element (el_items element) (no_attrs, st) of
        (a, st) \<Rightarrow>
          let st = (if truthy (attr_sID a) \<and> truthy (attr_eID a)
                    then log_only Critical (InvalidCombinedSIDAndEID location (el_items element)) st
                    else st);
              st = (if truthy (attr_sID a) \<and> \<not> truthy (attr_osisID a)
                    then log_both Error (MissingVerseAttributes location (el_items element)) st
                    else st)
          in
          if el_len element = 0 \<and> (truthy (attr_sID a) \<or> truthy (attr_eID a)) then
            (if debug_flag env \<and> truthy verseText then Inl AssertionError
             else if truthy (attr_sID a) \<and> truthy (attr_osisID a) \<and> \<not> truthy (attr_eID a) then
               let st = verse_start (the (attr_sID a)) verseMilestone chapterMilestone location st;
                   verseMilestone = the (attr_sID a)
               in (case verse_line env verseMilestone st of
                     Inl e \<Rightarrow> Inl e
                   | Inr st \<Rightarrow>
                       (case clean (el_tail element) None None None of
                          (vTail, noErrors, cleanLog) \<Rightarrow>
                            let st = st\<lparr>self_logged := self_logged st @ cleanLog\<rparr>
                            in if truthy vTail
                               then (case on_thisBook (appendToLastLine (the vTail)) st of
                                       Inl e \<Rightarrow> Inl e
                                     | Inr st \<Rightarrow> Inr (verseMilestone, st))
                               else Inr (verseMilestone, st)))
             else if truthy (attr_eID a) \<and> \<not> truthy (attr_osisID a) \<and> \<not> truthy (attr_sID a) then
               Inr ([], verse_end (the (attr_eID a)) verseMilestone location st)
             else Inl NameError)
          else verse_container env element a verseMilestone location st)"

definition test_env :: env where
  "test_env = \<lparr>debug_flag = False,
     getBBBFromOSIS = (\<lambda>s. if s = u ''Gen'' then Some (BBBStr (u ''GEN''))
                            else if s = u ''Exod'' then Some (BBBStr (u ''EXO''))
                            else if s = u ''Jas'' then Some (BBBStr (u ''JAM'')) else None),
     getUSFMAbbreviation = (\<lambda>s. Some (ascii_lower s)),
     getUSFMNumber = (\<lambda>s. Some (u ''01'')),
     checkXMLNoText = (\<lambda>e l i. []), checkXMLNoTail = (\<lambda>e l i. []),
     str_lower = ascii_lower, str_upper = (\<lambda>s. s), str_isdigit = (\<lambda>s. True),
     assumedBookNames = (\<lambda>b. [])\<rparr>"

definition test_loader :: loader where
  "test_loader = \<lparr>objects = [], self_books = [], self_BBBToNameDict = [],
     self_bookNameDict = [], self_combinedBookNameDict = [], self_bookAbbrevDict = [],
     self_reverseDict = [], self_guesses = [], self_logged = [],
     self_thisBook = None, self_haveBook = False, self_source = None, var_BBB = [],
     var_USFMAbbreviation = Some [], var_USFMNumber = Some [], var_mainDivOsisID = None,
     var_haveEIDs = False, var_loadErrors = []\<rparr>"

definition milestone :: "items \<Rightarrow> pystr option \<Rightarrow> element" where
  "milestone its tail = \<lparr>el_tag = OSISNameSpace @ u ''verse'', el_items = its, el_text = None,
     el_tail = tail, el_len = 0\<rparr>"

definition jas :: loader where
  "jas = test_loader\<lparr>objects := [\<lparr>book_BBB = u ''JAM'', book_rawLines = [(u ''c'', u ''1'')], objectNameString = [], objectTypeString = []\<rparr>],
     self_thisBook := Some 0, var_BBB := u ''JAM''\<rparr>"

text \<open>What saving the previous book leaves of the state: the book is registered
  under its code; the store keeps its size and, unless the last line was a section
  heading, its content; the object at \<open>r\<close> keeps its book code.\<close>

definition saved_state :: "nat \<Rightarrow> book \<Rightarrow> loader \<Rightarrow> loader \<Rightarrow> bool" where
  "saved_state r b st st1 =
     (\<exists>objs L X Y Z.
        st1 = st\<lparr>objects := objs, self_books := AList.update (book_BBB b) r (self_books st),
                  self_logged := L, self_BBBToNameDict := X, self_bookNameDict := Y,
                  self_combinedBookNameDict := Z\<rparr>
        \<and> length objs = length (objects st)
        \<and> (fst (last (book_rawLines b)) \<noteq> u ''s'' \<longrightarrow> objs = objects st)
        \<and> book_BBB (objs ! r) = book_BBB b)"

definition new_book :: "pystr \<Rightarrow> book" where
  "new_book bbb = \<lparr>book_BBB = bbb, book_rawLines = [],
     objectNameString = u ''OSIS XML Bible Book object'', objectTypeString = u ''OSIS''\<rparr>"

text \<open>The new book that \<open>start_new_book\<close> puts into the state \<open>st\<close>.\<close>

definition with_new_book :: "env \<Rightarrow> pystr \<Rightarrow> loader \<Rightarrow> loader" where
  "with_new_book env cmBBB st =
     st\<lparr>var_BBB := cmBBB,
        var_USFMAbbreviation := getUSFMAbbreviation env cmBBB,
        var_USFMNumber := getUSFMNumber env cmBBB,
        objects := objects st @ [new_book cmBBB],
        self_thisBook := Some (length (objects st)),
        self_haveBook := True\<rparr>"

definition chapter_milestone :: "items \<Rightarrow> element" where
  "chapter_milestone its = \<lparr>el_tag = OSISNameSpace @ u ''chapter'', el_items = its,
     el_text = None, el_tail = None, el_len = 0\<rparr>"

definition gen_book :: book where
  "gen_book = \<lparr>book_BBB = u ''GEN'',
     book_rawLines = [(u ''id'', u ''GEN''), (u ''h'', u ''Genesis''), (u ''mt1'', u ''Genesis''),
                      (u ''c'', u ''50''), (u ''v'', u ''25 ''), (u ''v'', u ''26 '')],
     objectNameString = u ''OSIS XML Bible Book object'', objectTypeString = u ''OSIS''\<rparr>"

definition gen :: loader where
  "gen = test_loader\<lparr>objects := [gen_book], self_thisBook := Some 0, var_BBB := u ''GEN''\<rparr>"

section \<open>Properties of USFMFile.py\<close>

lemma str_find_chr_Cons:
  "str_find (x # xs) [c] =
     (if x = c then 0 else if str_find xs [c] = - 1 then - 1 else str_find xs [c] + 1)"
  by (simp add: Let_def)

lemma str_find_chr_Nil: "str_find [] [c] = - 1"
  by simp

lemma str_find_chr_range: "- 1 \<le> str_find s [c] \<and> str_find s [c] < int (length s)"
  by (induction s) (auto simp: str_find_chr_Cons str_find_chr_Nil simp del: str_find.simps)

lemma str_find_chr_append:
  "c \<notin> set m \<Longrightarrow>
   str_find (m @ t) [c] = (if str_find t [c] = - 1 then - 1 else int (length m) + str_find t [c])"
proof (induction m)
  case Nil
  then show ?case by simp
next
  case (Cons a m)
  have "- 1 \<le> str_find t [c]" using str_find_chr_range [of t c] by simp
  with Cons show ?case
    by (auto simp: str_find_chr_Cons str_find_chr_Nil simp del: str_find.simps)
qed

lemma str_find_chr_notin: "c \<notin> set s \<Longrightarrow> str_find s [c] = - 1"
  by (induction s) (auto simp: str_find_chr_Cons str_find_chr_Nil simp del: str_find.simps)

lemma slice_from_nat: "slice_from s (int n) = drop n s"
  by (cases "n \<le> length s") (simp_all add: slice_from_def slice_index_def min_def)

lemma slice_to_nat: "slice_to s (int n) = take n s"
  by (cases "n \<le> length s") (simp_all add: slice_to_def slice_index_def min_def)

lemma slice_from_Suc: "slice_from s (int n + 1) = drop (Suc n) s"
  using slice_from_nat [of s "Suc n"] by (simp add: add.commute)

lemma slice_to_Suc: "slice_to s (int n + 1) = take (Suc n) s"
  using slice_to_nat [of s "Suc n"] by (simp add: add.commute)

lemma first_of_here: "c \<notin> set m \<Longrightarrow> first_of (m @ c # t) c = int (length m)"
  by (simp add: first_of_def str_find_chr_append)

lemma first_of_later:
  "c \<notin> set m \<Longrightarrow> x \<noteq> c \<Longrightarrow> length (m @ x # t) \<le> 999999 \<Longrightarrow>
   int (length m) < first_of (m @ x # t) c"
  using str_find_chr_range [of t c]
  by (auto simp add: first_of_def str_find_chr_append str_find_chr_Cons DUMMY_VALUE_def
      simp del: str_find.simps)

lemma first_of_none: "c \<notin> set s \<Longrightarrow> first_of s c = DUMMY_VALUE"
  by (simp add: first_of_def str_find_chr_notin)

lemma splitMarkerText_first_of:
  "splitMarkerText (BACKSLASH # rest) =
     (let si1 = first_of rest SPACE; si2 = first_of rest ASTERISK; si3 = first_of rest BACKSLASH;
          si = min si1 (min si2 si3)
      in if si = DUMMY_VALUE then Inr (Some rest, [])
         else if si = si3 then Inr (Some (slice_to rest si3), slice_from rest si3)
         else if si = si2 then Inr (Some (slice_to rest (si2 + 1)), slice_from rest (si2 + 1))
         else if si = si1 then Inr (Some (slice_to rest si1), slice_from rest (si1 + 1))
         else Inl UnboundLocalError)"
  by (simp add: splitMarkerText_def first_of_def Let_def slice_from_def [of "_ # _"] slice_index_def)

lemma split_none:
  assumes "set rest \<inter> terminators = {}"
  shows "splitMarkerText (BACKSLASH # rest) = Inr (Some rest, [])"
proof -
  from assms have "SPACE \<notin> set rest" "ASTERISK \<notin> set rest" "BACKSLASH \<notin> set rest"
    by (auto simp: terminators_def)
  then show ?thesis
    by (simp add: splitMarkerText_first_of first_of_none)
qed

lemma split_space:
  assumes "length rest \<le> 999999" "rest = m @ SPACE # t" "set m \<inter> terminators = {}"
  shows "splitMarkerText (BACKSLASH # rest) = Inr (Some m, t)"
proof -
  from assms have m: "SPACE \<notin> set m" "ASTERISK \<notin> set m" "BACKSLASH \<notin> set m"
    by (auto simp: terminators_def)
  have 1: "first_of rest SPACE = int (length m)"
    using m assms(2) by (simp add: first_of_here)
  have 2: "int (length m) < first_of rest ASTERISK"
    using m assms(1,2) first_of_later [of ASTERISK m SPACE t] by simp
  have 3: "int (length m) < first_of rest BACKSLASH"
    using m assms(1,2) first_of_later [of BACKSLASH m SPACE t] by simp
  have d: "int (length m) < DUMMY_VALUE"
    using assms(1,2) by (simp add: DUMMY_VALUE_def)
  show ?thesis
    using 1 2 3 d
    by (simp add: splitMarkerText_first_of Let_def min_def slice_to_nat slice_from_Suc assms(2))
qed


lemma split_asterisk:
  assumes "length rest \<le> 999999" "rest = m @ ASTERISK # t" "set m \<inter> terminators = {}"
  shows "splitMarkerText (BACKSLASH # rest) = Inr (Some (m @ [ASTERISK]), t)"
proof -
  from assms have m: "SPACE \<notin> set m" "ASTERISK \<notin> set m" "BACKSLASH \<notin> set m"
    by (auto simp: terminators_def)
  have 1: "first_of rest ASTERISK = int (length m)"
    using m assms(2) by (simp add: first_of_here)
  have 2: "int (length m) < first_of rest SPACE"
    using m assms(1,2) first_of_later [of SPACE m ASTERISK t] by simp
  have 3: "int (length m) < first_of rest BACKSLASH"
    using m assms(1,2) first_of_later [of BACKSLASH m ASTERISK t] by simp
  have d: "int (length m) < DUMMY_VALUE"
    using assms(1,2) by (simp add: DUMMY_VALUE_def)
  show ?thesis
    using 1 2 3 d
    by (simp add: splitMarkerText_first_of Let_def min_def slice_to_Suc slice_from_Suc assms(2))
qed

lemma split_backslash:
  assumes "length rest \<le> 999999" "rest = m @ BACKSLASH # t" "set m \<inter> terminators = {}"
  shows "splitMarkerText (BACKSLASH # rest) = Inr (Some m, BACKSLASH # t)"
proof -
  from assms have m: "SPACE \<notin> set m" "ASTERISK \<notin> set m" "BACKSLASH \<notin> set m"
    by (auto simp: terminators_def)
  have 1: "first_of rest BACKSLASH = int (length m)"
    using m assms(2) by (simp add: first_of_here)
  have 2: "int (length m) < first_of rest SPACE"
    using m assms(1,2) first_of_later [of SPACE m BACKSLASH t] by simp
  have 3: "int (length m) < first_of rest ASTERISK"
    using m assms(1,2) first_of_later [of ASTERISK m BACKSLASH t] by simp
  have d: "int (length m) < DUMMY_VALUE"
    using assms(1,2) by (simp add: DUMMY_VALUE_def)
  show ?thesis
    using 1 2 3 d
    by (simp add: splitMarkerText_first_of Let_def min_def slice_to_nat slice_from_nat assms(2))
qed

lemma read_marker_line_first_of:
  "read_marker_line ignoreSFMs st (BACKSLASH # rest) =
     (let si1 = first_of rest SPACE; si2 = first_of rest ASTERISK; si3 = first_of rest BACKSLASH;
          si = min si1 (min si2 si3);
          mt = (if si \<noteq> DUMMY_VALUE then
                  (if si = si3 then Some (slice_to rest si3, slice_from rest si3)
                   else if si = si2 then Some (slice_to rest (si2 + 1), slice_from rest (si2 + 1))
                   else if si = si1 then Some (slice_to rest si1, slice_from rest (si1 + 1))
                   else None)
                else Some (rest, []))
      in case mt of
           None \<Rightarrow> Raise UnboundLocalError
         | Some (m, text) \<Rightarrow>
             Continue (st\<lparr>marker := Some m,
                          result := (if m \<notin> set ignoreSFMs then result st @ [(m, text)]
                                     else result st)\<rparr>))"
  by (simp add: read_marker_line_def first_of_def Let_def slice_from_def [of "_ # _"]
      slice_index_def)

lemma read_marker_line_split:
  assumes "splitMarkerText (BACKSLASH # rest) = Inr (Some m, t)"
  shows "read_marker_line ignoreSFMs st (BACKSLASH # rest) =
           Continue (st\<lparr>marker := Some m,
                        result := (if m \<notin> set ignoreSFMs then result st @ [(m, t)]
                                   else result st)\<rparr>)"
proof -
  define si1 where "si1 = first_of rest SPACE"
  define si2 where "si2 = first_of rest ASTERISK"
  define si3 where "si3 = first_of rest BACKSLASH"
  define si where "si = min si1 (min si2 si3)"
  have S: "splitMarkerText (BACKSLASH # rest) =
     (if si = DUMMY_VALUE then Inr (Some rest, [])
      else if si = si3 then Inr (Some (slice_to rest si3), slice_from rest si3)
      else if si = si2 then Inr (Some (slice_to rest (si2 + 1)), slice_from rest (si2 + 1))
      else if si = si1 then Inr (Some (slice_to rest si1), slice_from rest (si1 + 1))
      else Inl UnboundLocalError)"
    unfolding splitMarkerText_first_of Let_def si_def si1_def si2_def si3_def ..
  have R: "read_marker_line ignoreSFMs st (BACKSLASH # rest) =
     (case (if si \<noteq> DUMMY_VALUE then
              (if si = si3 then Some (slice_to rest si3, slice_from rest si3)
               else if si = si2 then Some (slice_to rest (si2 + 1), slice_from rest (si2 + 1))
               else if si = si1 then Some (slice_to rest si1, slice_from rest (si1 + 1))
               else None)
            else Some (rest, [])) of
        None \<Rightarrow> Raise UnboundLocalError
      | Some (m, text) \<Rightarrow>
          Continue (st\<lparr>marker := Some m,
                       result := (if m \<notin> set ignoreSFMs then result st @ [(m, text)]
                                  else result st)\<rparr>))"
    unfolding read_marker_line_first_of Let_def si_def si1_def si2_def si3_def ..
  consider (dummy) "si = DUMMY_VALUE"
    | (bs) "si \<noteq> DUMMY_VALUE" "si = si3"
    | (ast) "si \<noteq> DUMMY_VALUE" "si \<noteq> si3" "si = si2"
    | (sp) "si \<noteq> DUMMY_VALUE" "si \<noteq> si3" "si \<noteq> si2" "si = si1"
    | (none) "si \<noteq> DUMMY_VALUE" "si \<noteq> si3" "si \<noteq> si2" "si \<noteq> si1"
    by blast
  then show ?thesis
  proof cases
    case dummy
    with assms S have "m = rest \<and> t = []" by simp
    with dummy R show ?thesis by simp
  next
    case bs
    with assms S have "m = slice_to rest si3 \<and> t = slice_from rest si3" by simp
    with bs R show ?thesis by simp
  next
    case ast
    with assms S have "m = slice_to rest (si2 + 1) \<and> t = slice_from rest (si2 + 1)" by simp
    with ast R show ?thesis by simp
  next
    case sp
    with assms S have "m = slice_to rest (si1 + 1 - 1) \<and> t = slice_from rest (si1 + 1)" by simp
    with sp R show ?thesis by simp
  next
    case none
    with assms S show ?thesis by simp
  qed
qed

text \<open>
  Claim C4, as amended.  For a line that begins with a backslash and whose remainder
  has at most 999999 characters, \<open>splitMarkerText\<close> ends the marker at the first
  space (dropped), asterisk (kept as the last character of the marker) or backslash
  (left as the first character of the text); a remainder without any of the three is
  the marker, with an empty text.  The inline code of \<open>USFMFile.read\<close> computes the
  same marker and text and appends the pair unless the marker is ignored.
\<close>

theorem splitMarkerText_marker_end:
  assumes "length rest \<le> 999999"
  shows "(set rest \<inter> terminators = {} \<longrightarrow>
            splitMarkerText (BACKSLASH # rest) = Inr (Some rest, []))
       \<and> (\<forall>m t. rest = m @ SPACE # t \<and> set m \<inter> terminators = {} \<longrightarrow>
            splitMarkerText (BACKSLASH # rest) = Inr (Some m, t))
       \<and> (\<forall>m t. rest = m @ ASTERISK # t \<and> set m \<inter> terminators = {} \<longrightarrow>
            splitMarkerText (BACKSLASH # rest) = Inr (Some (m @ [ASTERISK]), t))
       \<and> (\<forall>m t. rest = m @ BACKSLASH # t \<and> set m \<inter> terminators = {} \<longrightarrow>
            splitMarkerText (BACKSLASH # rest) = Inr (Some m, BACKSLASH # t))
       \<and> (\<forall>m t. splitMarkerText (BACKSLASH # rest) = Inr (Some m, t) \<longrightarrow>
            read_marker_line ignoreSFMs st (BACKSLASH # rest) =
              Continue (st\<lparr>marker := Some m,
                           result := (if m \<notin> set ignoreSFMs then result st @ [(m, t)]
                                      else result st)\<rparr>))"
proof (intro conjI allI impI)
  show "splitMarkerText (BACKSLASH # rest) = Inr (Some rest, [])"
    if "set rest \<inter> terminators = {}"
    using that by (rule split_none)
  show "splitMarkerText (BACKSLASH # rest) = Inr (Some m, t)"
    if "rest = m @ SPACE # t \<and> set m \<inter> terminators = {}" for m t
    using that assms split_space by blast
  show "splitMarkerText (BACKSLASH # rest) = Inr (Some (m @ [ASTERISK]), t)"
    if "rest = m @ ASTERISK # t \<and> set m \<inter> terminators = {}" for m t
    using that assms split_asterisk by blast
  show "splitMarkerText (BACKSLASH # rest) = Inr (Some m, BACKSLASH # t)"
    if "rest = m @ BACKSLASH # t \<and> set m \<inter> terminators = {}" for m t
    using that assms split_backslash by blast
  show "read_marker_line ignoreSFMs st (BACKSLASH # rest) =
              Continue (st\<lparr>marker := Some m,
                           result := (if m \<notin> set ignoreSFMs then result st @ [(m, t)]
                                      else result st)\<rparr>)"
    if "splitMarkerText (BACKSLASH # rest) = Inr (Some m, t)" for m t
    using that by (rule read_marker_line_split)
qed


theorem splitMarkerText_marker_end_witness:
  "splitMarkerText (BACKSLASH # u ''mt1'') = Inr (Some (u ''mt1''), [])
   \<and> splitMarkerText (BACKSLASH # u ''id GEN'') = Inr (Some (u ''id''), u ''GEN'')
   \<and> splitMarkerText (BACKSLASH # u ''f*see'') = Inr (Some (u ''f*''), u ''see'')
   \<and> splitMarkerText (BACKSLASH # u ''v'' @ BACKSLASH # u ''it'')
       = Inr (Some (u ''v''), BACKSLASH # u ''it'')
   \<and> read_marker_line [] \<lparr>lastLine = [], lineCount = 1, result = [], marker = None, logged = []\<rparr>
         (BACKSLASH # u ''id GEN'')
       = Continue \<lparr>lastLine = [], lineCount = 1, result = [(u ''id'', u ''GEN'')],
                   marker = Some (u ''id''), logged = []\<rparr>"
proof -
  have a: "splitMarkerText (BACKSLASH # u ''mt1'') = Inr (Some (u ''mt1''), [])"
    using splitMarkerText_marker_end [of "u ''mt1''", THEN conjunct1]
    by (simp add: terminators_def)
  have b: "splitMarkerText (BACKSLASH # u ''id GEN'') = Inr (Some (u ''id''), u ''GEN'')"
    using splitMarkerText_marker_end [of "u ''id GEN''", THEN conjunct2, THEN conjunct1,
        rule_format, of "u ''id''" "u ''GEN''"]
    by (simp add: terminators_def)
  have c: "splitMarkerText (BACKSLASH # u ''f*see'') = Inr (Some (u ''f*''), u ''see'')"
    using splitMarkerText_marker_end [of "u ''f*see''", THEN conjunct2, THEN conjunct2,
        THEN conjunct1, rule_format, of "u ''f''" "u ''see''"]
    by (simp add: terminators_def)
  have d: "splitMarkerText (BACKSLASH # u ''v'' @ BACKSLASH # u ''it'')
             = Inr (Some (u ''v''), BACKSLASH # u ''it'')"
    using splitMarkerText_marker_end [of "u ''v'' @ BACKSLASH # u ''it''", THEN conjunct2,
        THEN conjunct2, THEN conjunct2, THEN conjunct1, rule_format, of "u ''v''" "u ''it''"]
    by (simp add: terminators_def)
  have e: "read_marker_line [] \<lparr>lastLine = [], lineCount = 1, result = [], marker = None, logged = []\<rparr>
         (BACKSLASH # u ''id GEN'')
       = Continue \<lparr>lastLine = [], lineCount = 1, result = [(u ''id'', u ''GEN'')],
                   marker = Some (u ''id''), logged = []\<rparr>"
    using splitMarkerText_marker_end [of "u ''id GEN''" "[]"
        "\<lparr>lastLine = [], lineCount = 1, result = [], marker = None, logged = []\<rparr>",
        THEN conjunct2, THEN conjunct2, THEN conjunct2, THEN conjunct2,
        rule_format, of "u ''id''" "u ''GEN''"] b
    by simp
  from a b c d e show ?thesis by blast
qed

lemma first_of_replicate:
  "a \<noteq> c \<Longrightarrow> first_of (replicate n a @ t) c =
     (if str_find t [c] = - 1 then DUMMY_VALUE else int n + str_find t [c])"
  using str_find_chr_range [of t c]
  by (auto simp add: first_of_def str_find_chr_append simp del: str_find.simps)

text \<open>
  Claim C4 as stated fails on long lines: with the first space at index
  \<open>DUMMY_VALUE\<close> of the remainder, the search result is taken for the sentinel and
  the whole remainder, space included, is returned as the marker.
\<close>

theorem splitMarkerText_long_line_counterexample:
  "splitMarkerText (BACKSLASH # replicate 999999 97 @ [SPACE, 98])
     = Inr (Some (replicate 999999 97 @ [SPACE, 98]), [])
   \<and> splitMarkerText (BACKSLASH # replicate 999999 97 @ [SPACE, 98])
     \<noteq> Inr (Some (replicate 999999 97), [98])"
proof -
  have 1: "first_of (replicate 999999 97 @ [SPACE, 98]) SPACE = DUMMY_VALUE"
    by (simp add: first_of_replicate DUMMY_VALUE_def)
  have 2: "first_of (replicate 999999 97 @ [SPACE, 98]) ASTERISK = DUMMY_VALUE"
    by (simp add: first_of_replicate)
  have 3: "first_of (replicate 999999 97 @ [SPACE, 98]) BACKSLASH = DUMMY_VALUE"
    by (simp add: first_of_replicate)
  have "splitMarkerText (BACKSLASH # replicate 999999 97 @ [SPACE, 98])
     = Inr (Some (replicate 999999 97 @ [SPACE, 98]), [])"
    unfolding splitMarkerText_first_of 1 2 3 Let_def by simp
  then show ?thesis by simp
qed



subsection \<open>Decode errors and leading text in \<open>read\<close>\<close>

lemmas read_eval =
  read_def read_line_def read_marker_line_def slice_from_def slice_to_def slice_index_def
  DUMMY_VALUE_def Let_def

text \<open>
  Claim C5 says that a decode error costs one line and that the lines after it are
  still read.  The \<^verbatim>\<open>try\<close> encloses the whole \<^verbatim>\<open>for\<close> loop, so the
  \<^verbatim>\<open>UnicodeError\<close> ends the loop: of the three steps below, the entry of the third
  (marker \<^verbatim>\<open>mt\<close>) is missing from the result, although the message logged says
  that one line was ignored.
\<close>

theorem read_stops_at_decode_error:
  "read 3 True []
     [Line (BACKSLASH # u ''id GEN'' @ [NEWLINE]), UnicodeError,
      Line (BACKSLASH # u ''mt Genesis'' @ [NEWLINE])]
   = Inr ([(u ''id'', u ''GEN'')], [CriticalInvalidLineIgnored 1])"
  by (simp add: read_eval)

text \<open>
  Claim C6 says that a line without the backslash that comes before any entry is
  discarded with a diagnostic.  The branch for an empty \<^verbatim>\<open>result\<close> logs that the line
  is ignored but has no \<^verbatim>\<open>continue\<close>, so the line falls through to the marker
  parsing: its first character is dropped and the rest is split at the first space.
\<close>

theorem read_leading_text_not_discarded:
  "read 3 True [] [Line (u ''hello world'' @ [NEWLINE])]
   = Inr ([(u ''ello'', u ''world'')], [ErrorNonUSFMLineIgnored 1])"
  by (simp add: read_eval)


section \<open>Properties of \<open>clean\<close>\<close>












lemma sublist_chr: "sublist [c] s \<longleftrightarrow> c \<in> set s"
  by (induction s) (auto simp: sublist_Cons_right)

lemma str_in_chr: "str_in [c] s \<longleftrightarrow> c \<in> set s"
  by (simp add: sublist_str_in sublist_chr)
















section \<open>Properties of \<open>getVersification\<close> and \<open>getAddedUnits\<close>\<close>

lemma update_fresh: "k \<notin> fst ` set al \<Longrightarrow> AList.update k v al = al @ [(k, v)]"
  by (induction al) auto

lemma getVersification_loop_eq:
  assumes "distinct (map fst books)"
    and "fst ` set books \<inter> (fst ` set tv \<union> fst ` set to \<union> fst ` set tc \<union> fst ` set tr) = {}"
  shows "getVersification_loop bv books (tv, to, tc, tr) =
    (tv @ map (\<lambda>(BBB, book). (BBB, fst (bv book))) books,
     to @ books_with (\<lambda>b. fst (snd (bv b))) books,
     tc @ books_with (\<lambda>b. fst (snd (snd (bv b)))) books,
     tr @ books_with (\<lambda>b. snd (snd (snd (bv b)))) books)"
  using assms
proof (induction books arbitrary: tv to tc tr)
  case Nil
  then show ?case by (simp add: books_with_def every_book_def)
next
  case (Cons p books)
  obtain BBB book where p: "p = (BBB, book)" by (cases p)
  obtain v o' c r where bv: "bv book = (v, o', c, r)" by (cases "bv book")
  have fresh: "BBB \<notin> fst ` set tv" "BBB \<notin> fst ` set to" "BBB \<notin> fst ` set tc" "BBB \<notin> fst ` set tr"
    using Cons.prems(2) p by auto
  have d: "distinct (map fst books)" and nb: "BBB \<notin> fst ` set books"
    using Cons.prems(1) p by auto
  define xo where "xo = (if o' \<noteq> [] then [(BBB, o')] else [])"
  define xc where "xc = (if c \<noteq> [] then [(BBB, c)] else [])"
  define xr where "xr = (if r \<noteq> [] then [(BBB, r)] else [])"
  have step: "getVersification_loop bv (p # books) (tv, to, tc, tr) =
      getVersification_loop bv books (tv @ [(BBB, v)], to @ xo, tc @ xc, tr @ xr)"
    using fresh by (simp add: p bv update_fresh xo_def xc_def xr_def)
  have keys: "fst ` set xo \<subseteq> {BBB}" "fst ` set xc \<subseteq> {BBB}" "fst ` set xr \<subseteq> {BBB}"
    by (auto simp: xo_def xc_def xr_def)
  have disj: "fst ` set books \<inter>
      (fst ` set (tv @ [(BBB, v)]) \<union> fst ` set (to @ xo) \<union> fst ` set (tc @ xc)
       \<union> fst ` set (tr @ xr)) = {}"
    using Cons.prems(2) p nb keys by auto
  have w: "books_with (\<lambda>b. fst (snd (bv b))) (p # books)
             = xo @ books_with (\<lambda>b. fst (snd (bv b))) books"
      "books_with (\<lambda>b. fst (snd (snd (bv b)))) (p # books)
             = xc @ books_with (\<lambda>b. fst (snd (snd (bv b)))) books"
      "books_with (\<lambda>b. snd (snd (snd (bv b)))) (p # books)
             = xr @ books_with (\<lambda>b. snd (snd (snd (bv b)))) books"
    by (simp_all add: books_with_def every_book_def p bv xo_def xc_def xr_def)
  show ?case
    unfolding step w Cons.IH [OF d disj] by (simp add: p bv)
qed


lemma getAddedUnits_loop_eq:
  assumes "distinct (map fst books)"
    and "fst ` set books \<inter>
      (fst ` set ap \<union> fst ` set aq \<union> fst ` set ah \<union> fst ` set ar \<union> fst ` set aw) = {}"
  shows "getAddedUnits_loop au books ((hp, ap), (hq, aq), (hh, ah), (hr, ar), (hw, aw)) =
    ((hp \<or> books_with (\<lambda>b. fst (au b)) books \<noteq> [],
        ap @ every_book (\<lambda>b. fst (au b)) books),
     (hq \<or> books_with (\<lambda>b. fst (snd (au b))) books \<noteq> [],
        aq @ every_book (\<lambda>b. fst (snd (au b))) books),
     (hh \<or> books_with (\<lambda>b. fst (snd (snd (au b)))) books \<noteq> [],
        ah @ every_book (\<lambda>b. fst (snd (snd (au b)))) books),
     (hr \<or> books_with (\<lambda>b. fst (snd (snd (snd (au b))))) books \<noteq> [],
        ar @ every_book (\<lambda>b. fst (snd (snd (snd (au b))))) books),
     (hw \<or> books_with (\<lambda>b. snd (snd (snd (snd (au b))))) books \<noteq> [],
        aw @ every_book (\<lambda>b. snd (snd (snd (snd (au b))))) books))"
  using assms
proof (induction books arbitrary: hp ap hq aq hh ah hr ar hw aw)
  case Nil
  then show ?case by (simp add: books_with_def every_book_def)
next
  case (Cons x books)
  obtain BBB book where x: "x = (BBB, book)" by (cases x)
  obtain p q h r w where au: "au book = (p, q, h, r, w)" by (cases "au book") auto
  have fresh: "BBB \<notin> fst ` set ap" "BBB \<notin> fst ` set aq" "BBB \<notin> fst ` set ah"
      "BBB \<notin> fst ` set ar" "BBB \<notin> fst ` set aw"
    using Cons.prems(2) x by auto
  have d: "distinct (map fst books)" and nb: "BBB \<notin> fst ` set books"
    using Cons.prems(1) x by auto
  have step: "getAddedUnits_loop au (x # books) ((hp, ap), (hq, aq), (hh, ah), (hr, ar), (hw, aw)) =
      getAddedUnits_loop au books
        ((hp \<or> p \<noteq> [], ap @ [(BBB, p)]), (hq \<or> q \<noteq> [], aq @ [(BBB, q)]),
         (hh \<or> h \<noteq> [], ah @ [(BBB, h)]), (hr \<or> r \<noteq> [], ar @ [(BBB, r)]),
         (hw \<or> w \<noteq> [], aw @ [(BBB, w)]))"
    using fresh by (simp add: x au update_fresh)
  have disj: "fst ` set books \<inter>
      (fst ` set (ap @ [(BBB, p)]) \<union> fst ` set (aq @ [(BBB, q)]) \<union> fst ` set (ah @ [(BBB, h)])
       \<union> fst ` set (ar @ [(BBB, r)]) \<union> fst ` set (aw @ [(BBB, w)])) = {}"
    using Cons.prems(2) x nb by auto
  show ?case
    unfolding step Cons.IH [OF d disj]
    by (auto simp add: x au books_with_def every_book_def)
qed

text \<open>
  Claim C8, as amended.  On a Bible with at least one book, \<open>getAddedUnits\<close> gives
  \<open>None\<close> for each of its five features that no book has, and otherwise a mapping
  with an entry for every book; \<open>getVersification\<close> gives for omitted, combined and
  reordered verses a mapping with an entry for each book that has some, which is the
  empty mapping, not \<open>None\<close>, when no book has any.
\<close>

theorem added_units_None_versification_empty:
  assumes "distinct (map fst books)" and "books \<noteq> []"
  shows "getAddedUnits debugFlag au books =
           Inr (None_if_absent (\<lambda>b. fst (au b)) books,
                None_if_absent (\<lambda>b. fst (snd (au b))) books,
                None_if_absent (\<lambda>b. fst (snd (snd (au b)))) books,
                None_if_absent (\<lambda>b. fst (snd (snd (snd (au b))))) books,
                None_if_absent (\<lambda>b. snd (snd (snd (snd (au b))))) books)
       \<and> getVersification debugFlag bv books =
           Inr (map (\<lambda>(BBB, book). (BBB, fst (bv book))) books,
                books_with (\<lambda>b. fst (snd (bv b))) books,
                books_with (\<lambda>b. fst (snd (snd (bv b)))) books,
                books_with (\<lambda>b. snd (snd (snd (bv b)))) books)"
proof
  have "getAddedUnits_loop au books ((False, []), (False, []), (False, []), (False, []), (False, []))
     = ((books_with (\<lambda>b. fst (au b)) books \<noteq> [], every_book (\<lambda>b. fst (au b)) books),
     (books_with (\<lambda>b. fst (snd (au b))) books \<noteq> [], every_book (\<lambda>b. fst (snd (au b))) books),
     (books_with (\<lambda>b. fst (snd (snd (au b)))) books \<noteq> [],
        every_book (\<lambda>b. fst (snd (snd (au b)))) books),
     (books_with (\<lambda>b. fst (snd (snd (snd (au b))))) books \<noteq> [],
        every_book (\<lambda>b. fst (snd (snd (snd (au b))))) books),
     (books_with (\<lambda>b. snd (snd (snd (snd (au b))))) books \<noteq> [],
        every_book (\<lambda>b. snd (snd (snd (snd (au b))))) books))"
    using getAddedUnits_loop_eq [OF assms(1), of "[]" "[]" "[]" "[]" "[]" au False False False False False]
    by simp
  then show "getAddedUnits debugFlag au books =
           Inr (None_if_absent (\<lambda>b. fst (au b)) books,
                None_if_absent (\<lambda>b. fst (snd (au b))) books,
                None_if_absent (\<lambda>b. fst (snd (snd (au b)))) books,
                None_if_absent (\<lambda>b. fst (snd (snd (snd (au b))))) books,
                None_if_absent (\<lambda>b. snd (snd (snd (snd (au b))))) books)"
    using assms(2) by (simp add: getAddedUnits_def if_have_def None_if_absent_def)
  show "getVersification debugFlag bv books =
           Inr (map (\<lambda>(BBB, book). (BBB, fst (bv book))) books,
                books_with (\<lambda>b. fst (snd (bv b))) books,
                books_with (\<lambda>b. fst (snd (snd (bv b)))) books,
                books_with (\<lambda>b. snd (snd (snd (bv b)))) books)"
    using getVersification_loop_eq [OF assms(1), of "[]" "[]" "[]" "[]" bv] assms(2)
    by (simp add: getVersification_def)
qed

theorem added_units_None_versification_empty_witness:
  "getAddedUnits True (\<lambda>b. b)
     [(u ''GEN'', ([(1::nat, 1::nat)], [], [u ''Creation''], [], [])),
      (u ''EXO'', ([], [], [], [], []))]
   = Inr (Some [(u ''GEN'', [(1, 1)]), (u ''EXO'', [])],
          (None :: (pystr, nat list) odict option),
          Some [(u ''GEN'', [u ''Creation'']), (u ''EXO'', [])],
          (None :: (pystr, nat list) odict option),
          (None :: (pystr, nat list) odict option))
   \<and> getVersification True (\<lambda>b. b)
     [(u ''GEN'', ([(1::nat, 31::nat)], [], [(1::nat, u ''2-3'')], [])),
      (u ''EXO'', ([(1, 22)], [], [], []))]
   = Inr ([(u ''GEN'', [(1, 31)]), (u ''EXO'', [(1, 22)])],
          ([] :: (pystr, nat list) odict),
          [(u ''GEN'', [(1, u ''2-3'')])],
          ([] :: (pystr, nat list) odict))"
  using added_units_None_versification_empty [of
      "[(u ''GEN'', ([(1::nat, 1::nat)], ([]::nat list), [u ''Creation''], ([]::nat list), ([]::nat list))),
        (u ''EXO'', ([], [], [], [], []))]" True "\<lambda>b. b" "\<lambda>b. ([]::nat list, []::nat list, []::nat list, []::nat list)",
      THEN conjunct1]
    added_units_None_versification_empty [of
      "[(u ''GEN'', ([(1::nat, 31::nat)], ([]::nat list), [(1::nat, u ''2-3'')], ([]::nat list))),
        (u ''EXO'', ([(1, 22)], [], [], []))]" True
      "\<lambda>b. ([]::nat list, []::nat list, []::nat list, []::nat list, []::nat list)" "\<lambda>b. b",
      THEN conjunct2]
  by (simp add: None_if_absent_def books_with_def every_book_def)

text \<open>
  Claim C8 as stated fails for \<open>getVersification\<close>: a Bible whose one book has no
  omitted, combined or reordered verses gets three empty mappings; the result has no
  \<open>None\<close>.
\<close>

theorem getVersification_absent_counterexample:
  "getVersification False (\<lambda>b. b)
     [(u ''GEN'', ([(1::nat, 31::nat)], ([]::nat list), ([]::nat list), ([]::nat list)))]
   = Inr ([(u ''GEN'', [(1, 31)])], [], [], [])"
  by (simp add: getVersification_def)


section \<open>Properties of \<open>getErrors\<close>\<close>




























section \<open>Properties of \<open>guessXRefBBB\<close>\<close>

lemma guessed_abbrev:
  "self_bookAbbrevDict (guessed repr tier setReverse referenceString adjRefString bbb s)
     = AList.update adjRefString bbb (self_bookAbbrevDict s)"
  by (simp add: guessed_def add_guess_def Let_def)

lemma guessed_combined:
  "self_combinedBookNameDict (guessed repr tier setReverse referenceString adjRefString bbb s)
     = self_combinedBookNameDict s"
  by (simp add: guessed_def add_guess_def Let_def)

lemma scan_tiers_guessed:
  assumes "scan_tiers repr s referenceString adjRefString = Inr (Some bbb, s1)"
  shows "\<exists>tier setReverse. s1 = guessed repr tier setReverse referenceString adjRefString bbb s"
  using assms
  unfolding scan_tiers_def Let_def
  by (auto split: if_splits sum.splits)

lemma direct_lookup_after_guess:
  assumes "getBBB referenceString = None"
    and "map_of (self_combinedBookNameDict s) (lower referenceString) = None"
    and "s1 = guessed repr tier setReverse referenceString (lower referenceString) bbb s"
  shows "direct_lookup getBBB lower s1 referenceString =
           Some (bbb, s1\<lparr>self_reverseDict := AList.update bbb referenceString (self_reverseDict s1)\<rparr>)"
proof -
  have "map_of (self_combinedBookNameDict s1) (lower referenceString) = None"
    using assms(2,3) by (simp add: guessed_combined)
  moreover have "map_of (self_bookAbbrevDict s1) (lower referenceString) = Some bbb"
    using assms(3) by (simp add: guessed_abbrev update_conv')
  ultimately show ?thesis
    using assms(1) by (simp add: direct_lookup_def)
qed

lemma direct_lookup_again:
  assumes "direct_lookup getBBB lower s referenceString = Some (bbb, s1)"
  shows "\<exists>s2. direct_lookup getBBB lower s1 referenceString = Some (bbb, s2)
          \<and> self_bookAbbrevDict s2 = self_bookAbbrevDict s1
          \<and> self_combinedBookNameDict s2 = self_combinedBookNameDict s1
          \<and> self_guesses s2 = self_guesses s1"
  using assms
  by (auto simp: direct_lookup_def Let_def split: option.splits)

lemma direct_lookup_source:
  assumes "direct_lookup getBBB lower s1 referenceString = Some (bbb, s2)"
  shows "getBBB referenceString = Some bbb
       \<or> map_of (self_combinedBookNameDict s1) (lower referenceString) = Some bbb
       \<or> map_of (self_bookAbbrevDict s1) (lower referenceString) = Some bbb"
  using assms
  by (auto simp: direct_lookup_def Let_def split: option.splits)

text \<open>
  Claim C7, as amended.  When \<open>guessXRefBBB\<close> resolves a string to a book code, a
  second call with the same string, on the state the first call left, returns the
  same code, and it is answered by the lookups at the top of the function, before
  any tier scans the names: by the table of book codes when the string is itself a
  code, else by \<^verbatim>\<open>combinedBookNameDict\<close> or \<^verbatim>\<open>bookAbbrevDict\<close> under the lowercased
  string.  The second call leaves both dictionaries and \<^verbatim>\<open>guesses\<close> as they are.
\<close>

theorem guessXRefBBB_idempotent:
  assumes "guessXRefBBB debugFlag getBBB lower repr s referenceString = Inr (Some bbb, s1)"
  shows "\<exists>s2. guessXRefBBB debugFlag getBBB lower repr s1 referenceString = Inr (Some bbb, s2)
          \<and> direct_lookup getBBB lower s1 referenceString = Some (bbb, s2)
          \<and> (getBBB referenceString = Some bbb
               \<or> map_of (self_combinedBookNameDict s1) (lower referenceString) = Some bbb
               \<or> map_of (self_bookAbbrevDict s1) (lower referenceString) = Some bbb)
          \<and> self_bookAbbrevDict s2 = self_bookAbbrevDict s1
          \<and> self_combinedBookNameDict s2 = self_combinedBookNameDict s1
          \<and> self_guesses s2 = self_guesses s1"
proof -
  from assms have dbg: "\<not> (debugFlag \<and> referenceString = [])"
    by (auto simp: guessXRefBBB_def split: if_splits)
  have "\<exists>s2. direct_lookup getBBB lower s1 referenceString = Some (bbb, s2)
          \<and> self_bookAbbrevDict s2 = self_bookAbbrevDict s1
          \<and> self_combinedBookNameDict s2 = self_combinedBookNameDict s1
          \<and> self_guesses s2 = self_guesses s1"
  proof (cases "direct_lookup getBBB lower s referenceString")
    case (Some r)
    with assms dbg have "direct_lookup getBBB lower s referenceString = Some (bbb, s1)"
      by (cases r) (simp add: guessXRefBBB_def)
    then show ?thesis by (rule direct_lookup_again)
  next
    case None
    then have g: "getBBB referenceString = None"
      and c: "map_of (self_combinedBookNameDict s) (lower referenceString) = None"
      by (auto simp: direct_lookup_def Let_def split: option.splits)
    from assms dbg None have
      "scan_tiers repr s referenceString (lower referenceString) = Inr (Some bbb, s1)"
      by (auto simp: guessXRefBBB_def split: if_splits)
    then obtain tier setReverse where
      "s1 = guessed repr tier setReverse referenceString (lower referenceString) bbb s"
      using scan_tiers_guessed by blast
    from direct_lookup_after_guess [of getBBB referenceString s lower s1, OF g c this]
    show ?thesis by simp
  qed
  then obtain s2 where 2: "direct_lookup getBBB lower s1 referenceString = Some (bbb, s2)"
    and 3: "self_bookAbbrevDict s2 = self_bookAbbrevDict s1"
      "self_combinedBookNameDict s2 = self_combinedBookNameDict s1"
      "self_guesses s2 = self_guesses s1"
    by blast
  have "guessXRefBBB debugFlag getBBB lower repr s1 referenceString = Inr (Some bbb, s2)"
    using 2 dbg by (auto simp: guessXRefBBB_def)
  with 2 3 direct_lookup_source [OF 2] show ?thesis by blast
qed

lemmas guess_eval =
  guessXRefBBB_def direct_lookup_def scan_tiers_def guessed_def add_guess_def
  starting_with_def starting_with_unknown_def word_starting_with_def startswith_def
  two_names_def empty_bible_def only_GEN_def ascii_lower_def ascii_repr_def Let_def

theorem guessXRefBBB_idempotent_witness:
  "\<exists>s2. guessXRefBBB True only_GEN ascii_lower ascii_repr
           (two_names\<lparr>self_bookAbbrevDict := [(u ''ge'', u ''GEN'')],
                      self_reverseDict := [(u ''GEN'', u ''Ge'')],
                      self_guesses := u ''Guessed 'Ge' to be GEN (startswith1)''\<rparr>) (u ''Ge'')
          = Inr (Some (u ''GEN''), s2)
        \<and> self_guesses s2 = u ''Guessed 'Ge' to be GEN (startswith1)''"
proof -
  have "guessXRefBBB True only_GEN ascii_lower ascii_repr two_names (u ''Ge'')
        = Inr (Some (u ''GEN''),
            two_names\<lparr>self_bookAbbrevDict := [(u ''ge'', u ''GEN'')],
                      self_reverseDict := [(u ''GEN'', u ''Ge'')],
                      self_guesses := u ''Guessed 'Ge' to be GEN (startswith1)''\<rparr>)"
    by (simp add: guess_eval)
  from guessXRefBBB_idempotent [OF this] show ?thesis
    by auto
qed

text \<open>
  Claim C7 as stated has the second call served from the two dictionaries.  A
  string that is itself a book code is returned by the table of book codes, on the
  first call and on the second, and neither dictionary ever holds it.
\<close>

theorem guessXRefBBB_code_counterexample:
  "guessXRefBBB False only_GEN ascii_lower ascii_repr empty_bible (u ''GEN'')
     = Inr (Some (u ''GEN''), empty_bible)
   \<and> map_of (self_combinedBookNameDict empty_bible) (ascii_lower (u ''GEN'')) = None
   \<and> map_of (self_bookAbbrevDict empty_bible) (ascii_lower (u ''GEN'')) = None"
  by (simp add: guess_eval)


section \<open>Properties of the chapter and verse milestones\<close>

lemma chapter_attributes_eID:
  "chapter_attributes location element [(u ''eID'', eID)] (no_attrs, st)
     = (no_attrs\<lparr>attr_eID := Some eID\<rparr>, st)"
  by simp

lemma verse_attributes_eID:
  "verse_attributes location element [(u ''eID'', eID)] (no_attrs, st)
     = (no_attrs\<lparr>attr_eID := Some eID\<rparr>, st)"
  by simp

lemma chapter_end_mismatch:
  assumes "el_items element = [(u ''eID'', eID)]" and "eID \<noteq> []" and "el_len element = 0"
    and "eID \<noteq> chapterMilestone"
  shows "validateChapterElement env element chapterMilestone verseMilestone locationDescription st
    = Inr (chapterMilestone,
        (let location = u ''validateChapterElement: '' @ locationDescription;
             st = report (checkXMLNoText env element (location @ u '' at '' @ verseMilestone)
                         (u ''s2a8'')) st;
             st = report (checkXMLNoTail env element (location @ u '' at '' @ verseMilestone)
                         (u ''j9k7'')) st;
             st = (if verseMilestone \<noteq> [] \<and> var_haveEIDs st
                   then log_both Error
                          (UnexpectedChapterMilestone (el_items element) verseMilestone location) st
                   else st);
             st = log_both Error (ChapterMilestoneEndDidntMatch eID chapterMilestone location) st
         in if chapterMilestone \<noteq> []
            then log_both Error (MissingChapterID chapterMilestone location) st else st))"
  using assms
  by (simp add: validateChapterElement_def chapter_cursor_def
      chapter_line_def truthy_def no_attrs_def Let_def)

lemma verse_end_mismatch:
  assumes "el_items element = [(u ''eID'', eID)]" and "eID \<noteq> []" and "el_len element = 0"
    and "\<not> (debug_flag env \<and> truthy (el_text element))"
  shows "validateVerseElement env element verseMilestone chapterMilestone locationDescription st
    = Inr ([], verse_end eID verseMilestone (u ''validateVerseElement: '' @ locationDescription) st)"
  using assms
  by (simp add: validateVerseElement_def truthy_def no_attrs_def Let_def)

text \<open>
  Claim C2, as amended.  For an end milestone (an element without subelements whose
  one attribute is a non-empty \<^verbatim>\<open>eID\<close>) that does not match the open milestone:
  \<open>validateChapterElement\<close> returns normally, logs an error, appends the diagnostic
  to \<^verbatim>\<open>loadErrors\<close> and returns the chapter milestone it was given, so the open
  chapter stays open, and no book is touched; \<open>validateVerseElement\<close> (outside the
  debug mode's assertion on element text) returns normally, logs an error, appends
  the diagnostic and returns the empty string, so the open verse is closed.
\<close>

theorem end_milestone_mismatch:
  assumes "el_items element = [(u ''eID'', eID)]" and "eID \<noteq> []" and "el_len element = 0"
  shows "(eID \<noteq> chapterMilestone \<longrightarrow>
           (\<exists>st'. validateChapterElement env element chapterMilestone verseMilestone loc st
                    = Inr (chapterMilestone, st')
              \<and> (Error, ChapterMilestoneEndDidntMatch eID chapterMilestone
                           (u ''validateChapterElement: '' @ loc)) \<in> set (self_logged st')
              \<and> ChapterMilestoneEndDidntMatch eID chapterMilestone
                   (u ''validateChapterElement: '' @ loc) \<in> set (var_loadErrors st')
              \<and> objects st' = objects st \<and> self_books st' = self_books st
              \<and> self_thisBook st' = self_thisBook st))
       \<and> (eID \<noteq> verseMilestone \<and> verseMilestone \<noteq> []
            \<and> \<not> (debug_flag env \<and> truthy (el_text element)) \<longrightarrow>
           validateVerseElement env element verseMilestone chapterMilestone loc st
             = Inr ([], st\<lparr>var_haveEIDs := True,
                      self_logged := self_logged st
                        @ [(Error, VerseMilestoneEndDidntMatch verseMilestone eID
                                     (u ''validateVerseElement: '' @ loc))],
                      var_loadErrors := var_loadErrors st
                        @ [VerseMilestoneEndDidntMatch verseMilestone eID
                             (u ''validateVerseElement: '' @ loc)]\<rparr>))"
proof (intro conjI impI)
  assume ne: "eID \<noteq> chapterMilestone"
  define st' where "st' =
        (let location = u ''validateChapterElement: '' @ loc;
             st = report (checkXMLNoText env element (location @ u '' at '' @ verseMilestone)
                         (u ''s2a8'')) st;
             st = report (checkXMLNoTail env element (location @ u '' at '' @ verseMilestone)
                         (u ''j9k7'')) st;
             st = (if verseMilestone \<noteq> [] \<and> var_haveEIDs st
                   then log_both Error
                          (UnexpectedChapterMilestone (el_items element) verseMilestone location) st
                   else st);
             st = log_both Error (ChapterMilestoneEndDidntMatch eID chapterMilestone location) st
         in if chapterMilestone \<noteq> []
            then log_both Error (MissingChapterID chapterMilestone location) st else st)"
  have r: "validateChapterElement env element chapterMilestone verseMilestone loc st
             = Inr (chapterMilestone, st')"
    unfolding st'_def using assms ne by (rule chapter_end_mismatch)
  have l: "(Error, ChapterMilestoneEndDidntMatch eID chapterMilestone
                           (u ''validateChapterElement: '' @ loc)) \<in> set (self_logged st')"
    by (simp add: st'_def log_both_def report_def Let_def)
  have e: "ChapterMilestoneEndDidntMatch eID chapterMilestone
                   (u ''validateChapterElement: '' @ loc) \<in> set (var_loadErrors st')"
    by (simp add: st'_def log_both_def report_def Let_def)
  have o: "objects st' = objects st \<and> self_books st' = self_books st
              \<and> self_thisBook st' = self_thisBook st"
    by (simp add: st'_def log_both_def report_def Let_def)
  from r l e o
  show "\<exists>st'. validateChapterElement env element chapterMilestone verseMilestone loc st
                    = Inr (chapterMilestone, st')
              \<and> (Error, ChapterMilestoneEndDidntMatch eID chapterMilestone
                           (u ''validateChapterElement: '' @ loc)) \<in> set (self_logged st')
              \<and> ChapterMilestoneEndDidntMatch eID chapterMilestone
                   (u ''validateChapterElement: '' @ loc) \<in> set (var_loadErrors st')
              \<and> objects st' = objects st \<and> self_books st' = self_books st
              \<and> self_thisBook st' = self_thisBook st"
    by blast
next
  assume a: "eID \<noteq> verseMilestone \<and> verseMilestone \<noteq> []
            \<and> \<not> (debug_flag env \<and> truthy (el_text element))"
  then have "validateVerseElement env element verseMilestone chapterMilestone loc st
    = Inr ([], verse_end eID verseMilestone (u ''validateVerseElement: '' @ loc) st)"
    using assms by (intro verse_end_mismatch) auto
  with a show "validateVerseElement env element verseMilestone chapterMilestone loc st
             = Inr ([], st\<lparr>var_haveEIDs := True,
                      self_logged := self_logged st
                        @ [(Error, VerseMilestoneEndDidntMatch verseMilestone eID
                                     (u ''validateVerseElement: '' @ loc))],
                      var_loadErrors := var_loadErrors st
                        @ [VerseMilestoneEndDidntMatch verseMilestone eID
                             (u ''validateVerseElement: '' @ loc)]\<rparr>)"
    by (simp add: verse_end_def log_both_def Let_def)
qed

lemmas osis_examples = test_env_def test_loader_def milestone_def jas_def

theorem end_milestone_mismatch_witness:
  "(\<exists>st'. validateChapterElement test_env (milestone [(u ''eID'', u ''Jas.2'')] None)
             (u ''Jas.1'') [] (u ''chapter'') jas = Inr (u ''Jas.1'', st')
          \<and> objects st' = objects jas)
   \<and> validateVerseElement test_env (milestone [(u ''eID'', u ''Jas.1.9'')] None)
        (u ''Jas.1.8'') (u ''Jas.1'') (u ''verse'') jas
      = Inr ([], jas\<lparr>var_haveEIDs := True,
               self_logged := [(Error, VerseMilestoneEndDidntMatch (u ''Jas.1.8'') (u ''Jas.1.9'')
                                         (u ''validateVerseElement: verse''))],
               var_loadErrors := [VerseMilestoneEndDidntMatch (u ''Jas.1.8'') (u ''Jas.1.9'')
                                    (u ''validateVerseElement: verse'')]\<rparr>)"
proof
  have 1: "el_items (milestone [(u ''eID'', u ''Jas.2'')] None) = [(u ''eID'', u ''Jas.2'')]"
    and 2: "el_len (milestone [(u ''eID'', u ''Jas.2'')] None) = 0"
    by (simp_all add: milestone_def)
  from end_milestone_mismatch [OF 1 _ 2, of "u ''Jas.1''" test_env "[]" "u ''chapter''" jas,
      THEN conjunct1]
  show "\<exists>st'. validateChapterElement test_env (milestone [(u ''eID'', u ''Jas.2'')] None)
             (u ''Jas.1'') [] (u ''chapter'') jas = Inr (u ''Jas.1'', st')
          \<and> objects st' = objects jas"
    by auto
next
  have 1: "el_items (milestone [(u ''eID'', u ''Jas.1.9'')] None) = [(u ''eID'', u ''Jas.1.9'')]"
    and 2: "el_len (milestone [(u ''eID'', u ''Jas.1.9'')] None) = 0"
    by (simp_all add: milestone_def)
  from end_milestone_mismatch [OF 1 _ 2, of "u ''Jas.1''" test_env "u ''Jas.1.8''" "u ''verse''" jas,
      THEN conjunct2]
  show "validateVerseElement test_env (milestone [(u ''eID'', u ''Jas.1.9'')] None)
        (u ''Jas.1.8'') (u ''Jas.1'') (u ''verse'') jas
      = Inr ([], jas\<lparr>var_haveEIDs := True,
               self_logged := [(Error, VerseMilestoneEndDidntMatch (u ''Jas.1.8'') (u ''Jas.1.9'')
                                         (u ''validateVerseElement: verse''))],
               var_loadErrors := [VerseMilestoneEndDidntMatch (u ''Jas.1.8'') (u ''Jas.1.9'')
                                    (u ''validateVerseElement: verse'')]\<rparr>)"
    by (simp add: osis_examples)
qed

text \<open>
  Claim C2 as stated has the open verse kept after an end milestone that does not
  match.  With the verse \<^verbatim>\<open>Jas.1.8\<close> open, the end milestone \<^verbatim>\<open>Jas.1.9\<close> makes
  \<open>validateVerseElement\<close> return the empty string, which its callers assign to
  \<^verbatim>\<open>verseMilestone\<close>.
\<close>

theorem verse_end_mismatch_counterexample:
  "(case validateVerseElement test_env (milestone [(u ''eID'', u ''Jas.1.9'')] None)
           (u ''Jas.1.8'') (u ''Jas.1'') (u ''verse'') jas of
      Inl e \<Rightarrow> False
    | Inr (returned, st) \<Rightarrow> returned = [] \<and> returned \<noteq> u ''Jas.1.8'')"
  by (simp add: validateVerseElement_def verse_end_def log_both_def truthy_def no_attrs_def
      Let_def osis_examples)


section \<open>Properties of the chapter start milestone\<close>

lemma split_on_notin: "sep \<notin> set s \<Longrightarrow> split_on sep s = [s]"
  by (induction s) auto

lemma split_on_sep: "sep \<notin> set a \<Longrightarrow> split_on sep (a @ sep # rest) = a # split_on sep rest"
  by (induction a) auto

lemma saveBook_names_fields:
  "\<exists>X Y Z. saveBook_names lower bbb names s =
      s\<lparr>self_BBBToNameDict := X, self_bookNameDict := Y, self_combinedBookNameDict := Z\<rparr>"
proof (induction names arbitrary: s)
  case Nil
  have "s = s\<lparr>self_BBBToNameDict := self_BBBToNameDict s, self_bookNameDict := self_bookNameDict s,
               self_combinedBookNameDict := self_combinedBookNameDict s\<rparr>" by simp
  then show ?case by (metis saveBook_names.simps(1))
next
  case (Cons n names)
  define s1 where "s1 =
     (let s = s\<lparr>self_BBBToNameDict := AList.update bbb n (self_BBBToNameDict s)\<rparr>;
          assumedBookNameLower = lower n;
          s = s\<lparr>self_bookNameDict := AList.update assumedBookNameLower bbb (self_bookNameDict s)\<rparr>;
          s = s\<lparr>self_combinedBookNameDict :=
                   AList.update assumedBookNameLower bbb (self_combinedBookNameDict s)\<rparr>;
          s = (if SPACE \<in> set assumedBookNameLower
               then s\<lparr>self_combinedBookNameDict :=
                        AList.update (replace assumedBookNameLower [SPACE] []) bbb
                          (self_combinedBookNameDict s)\<rparr>
               else s)
      in s)"
  have 1: "saveBook_names lower bbb (n # names) s = saveBook_names lower bbb names s1"
    by (simp add: s1_def Let_def)
  have "\<exists>X1 Y1 Z1. s1 = s\<lparr>self_BBBToNameDict := X1, self_bookNameDict := Y1,
      self_combinedBookNameDict := Z1\<rparr>"
  proof (cases "SPACE \<in> set (lower n)")
    case True
    then have "s1 = s\<lparr>self_BBBToNameDict := AList.update bbb n (self_BBBToNameDict s),
        self_bookNameDict := AList.update (lower n) bbb (self_bookNameDict s),
        self_combinedBookNameDict := AList.update (replace (lower n) [SPACE] []) bbb
          (AList.update (lower n) bbb (self_combinedBookNameDict s))\<rparr>"
      by (simp add: s1_def Let_def)
    then show ?thesis by blast
  next
    case False
    then have "s1 = s\<lparr>self_BBBToNameDict := AList.update bbb n (self_BBBToNameDict s),
        self_bookNameDict := AList.update (lower n) bbb (self_bookNameDict s),
        self_combinedBookNameDict := AList.update (lower n) bbb (self_combinedBookNameDict s)\<rparr>"
      by (simp add: s1_def Let_def)
    then show ?thesis by blast
  qed
  then obtain X1 Y1 Z1 where 2: "s1 = s\<lparr>self_BBBToNameDict := X1, self_bookNameDict := Y1,
      self_combinedBookNameDict := Z1\<rparr>"
    by blast
  from Cons.IH [of s1] obtain X Y Z where "saveBook_names lower bbb names s1 =
      s1\<lparr>self_BBBToNameDict := X, self_bookNameDict := Y, self_combinedBookNameDict := Z\<rparr>"
    by blast
  with 1 2 have "saveBook_names lower bbb (n # names) s =
      s\<lparr>self_BBBToNameDict := X, self_bookNameDict := Y, self_combinedBookNameDict := Z\<rparr>"
    by simp
  then show ?case by blast
qed

lemma saveBook_result:
  assumes "object_at s r = Some b"
  shows "\<exists>X Y Z L. saveBook lower names r s =
      Inr (s\<lparr>self_books := AList.update (book_BBB b) r (self_books s), self_logged := L,
              self_BBBToNameDict := X, self_bookNameDict := Y, self_combinedBookNameDict := Z\<rparr>)"
proof -
  define s1 where "s1 = (if map_of (self_books s) (book_BBB b) \<noteq> None
                   then s\<lparr>self_logged := self_logged s @ [(Critical, SaveBookOverwriting (book_BBB b))]\<rparr>
                   else s)"
  define s2 where "s2 = s1\<lparr>self_books := AList.update (book_BBB b) r (self_books s1)\<rparr>"
  have 1: "saveBook lower names r s = Inr (saveBook_names lower (book_BBB b) (names b) s2)"
    using assms by (simp add: saveBook_def s1_def s2_def Let_def)
  have "s2 = s\<lparr>self_books := AList.update (book_BBB b) r (self_books s),
      self_logged := self_logged s1\<rparr>"
    by (cases "map_of (self_books s) (book_BBB b) \<noteq> None") (simp_all add: s1_def s2_def)
  then obtain L where 2: "s2 = s\<lparr>self_books := AList.update (book_BBB b) r (self_books s),
      self_logged := L\<rparr>"
    by blast
  obtain X Y Z where "saveBook_names lower (book_BBB b) (names b) s2 =
      s2\<lparr>self_BBBToNameDict := X, self_bookNameDict := Y, self_combinedBookNameDict := Z\<rparr>"
    using saveBook_names_fields by blast
  with 1 2 show ?thesis by auto
qed

lemma object_at_update:
  "r < length (objects st) \<Longrightarrow> object_at (st\<lparr>objects := (objects st)[r := x]\<rparr>) r = Some x"
  by (simp add: object_at_def)

lemma object_at_Some: "object_at st r = Some b \<Longrightarrow> r < length (objects st) \<and> objects st ! r = b"
  by (auto simp: object_at_def split: if_splits)

lemma on_thisBook_result:
  "self_thisBook st = Some r \<Longrightarrow> object_at st r = Some b \<Longrightarrow>
   on_thisBook f st = Inr (st\<lparr>objects := (objects st)[r := f b]\<rparr>)"
  by (simp add: on_thisBook_def)

lemma save_previous_book_result:
  assumes t: "self_thisBook st = Some r" and o: "object_at st r = Some b"
    and h: "fst (last (book_rawLines b)) = u ''s'' \<longrightarrow>
              truthy (var_USFMAbbreviation st) \<or> var_mainDivOsisID st \<noteq> None"
  shows "\<exists>st1. save_previous_book env r b st = Inr st1 \<and> saved_state r b st st1"
proof (cases "fst (last (book_rawLines b)) \<noteq> u ''s''")
  case True
  from saveBook_result [OF o, of "str_lower env" "assumedBookNames env"]
  obtain X Y Z L where s: "saveBook (str_lower env) (assumedBookNames env) r st =
      Inr (st\<lparr>self_books := AList.update (book_BBB b) r (self_books st), self_logged := L,
              self_BBBToNameDict := X, self_bookNameDict := Y, self_combinedBookNameDict := Z\<rparr>)"
    by blast
  define st1 where "st1 = st\<lparr>self_books := AList.update (book_BBB b) r (self_books st),
      self_logged := L, self_BBBToNameDict := X, self_bookNameDict := Y,
      self_combinedBookNameDict := Z\<rparr>"
  have 1: "save_previous_book env r b st = Inr st1"
    using True s by (simp add: save_previous_book_def Let_def st1_def)
  have "st1 = st\<lparr>objects := objects st,
      self_books := AList.update (book_BBB b) r (self_books st),
      self_logged := L, self_BBBToNameDict := X, self_bookNameDict := Y,
      self_combinedBookNameDict := Z\<rparr>"
    by (simp add: st1_def)
  moreover have "book_BBB (objects st ! r) = book_BBB b"
    using object_at_Some [OF o] by simp
  ultimately have "saved_state r b st st1"
    unfolding saved_state_def by blast
  with 1 show ?thesis by blast
next
  case False
  then have s: "fst (last (book_rawLines b)) = u ''s''" by simp
  from object_at_Some [OF o] have rl: "r < length (objects st)" by simp
  define b0 where "b0 = b\<lparr>book_rawLines := butlast (book_rawLines b)\<rparr>"
  define sta where "sta = st\<lparr>objects := (objects st)[r := b0]\<rparr>"
  have oa: "object_at sta r = Some b0"
    unfolding sta_def using rl by (rule object_at_update)
  from saveBook_result [OF oa, of "str_lower env" "assumedBookNames env"]
  obtain X Y Z L where sv: "saveBook (str_lower env) (assumedBookNames env) r sta =
      Inr (sta\<lparr>self_books := AList.update (book_BBB b0) r (self_books sta), self_logged := L,
              self_BBBToNameDict := X, self_bookNameDict := Y, self_combinedBookNameDict := Z\<rparr>)"
    by blast
  define stb where "stb = sta\<lparr>self_books := AList.update (book_BBB b0) r (self_books sta),
      self_logged := L, self_BBBToNameDict := X, self_bookNameDict := Y,
      self_combinedBookNameDict := Z\<rparr>"
  define name where "name = (if truthy (var_USFMAbbreviation st) then the (var_USFMAbbreviation st)
                           else the (var_mainDivOsisID st))"
  define f1 where "f1 = addLine (u ''id'')
                            (str_upper env name @ u '' converted to USFM from OSIS by ''
                               @ ProgName @ u '' V'' @ ProgVersion)"
  define f2 where "f2 = addLine (u ''h'') name"
  define f3 where "f3 = addLine (u ''mt1'') (snd (last (book_rawLines b)))"
  define st1 where "st1 = stb\<lparr>objects := (objects stb)[r := f3 (f2 (f1 b0))]\<rparr>"
  have tb: "self_thisBook stb = Some r" "object_at stb r = Some b0"
    "var_USFMAbbreviation stb = var_USFMAbbreviation st"
    "var_mainDivOsisID stb = var_mainDivOsisID st"
    using t oa rl by (simp_all add: stb_def sta_def object_at_def)
  have c1: "on_thisBook f1 stb = Inr (stb\<lparr>objects := (objects stb)[r := f1 b0]\<rparr>)"
    using tb by (intro on_thisBook_result)
  have rb: "r < length (objects stb)" using rl by (simp add: stb_def sta_def)
  have c2: "on_thisBook f2 (stb\<lparr>objects := (objects stb)[r := f1 b0]\<rparr>)
      = Inr (stb\<lparr>objects := (objects stb)[r := f2 (f1 b0)]\<rparr>)"
    using tb rb by (simp add: on_thisBook_def object_at_def)
  have c3: "on_thisBook f3 (stb\<lparr>objects := (objects stb)[r := f2 (f1 b0)]\<rparr>) = Inr st1"
    using tb rb by (simp add: on_thisBook_def object_at_def st1_def)
  have nm: "name = (if truthy (var_USFMAbbreviation stb) then the (var_USFMAbbreviation stb)
                           else the (var_mainDivOsisID stb))"
    by (simp add: name_def tb)
  have ok: "\<not> (\<not> truthy (var_USFMAbbreviation stb) \<and> var_mainDivOsisID stb = None)"
    using h s tb(3,4) by auto
  have "save_previous_book env r b st =
      (case saveBook (str_lower env) (assumedBookNames env) r sta of
           Inl e \<Rightarrow> Inl e
         | Inr st \<Rightarrow>
             if \<not> truthy (var_USFMAbbreviation st) \<and> var_mainDivOsisID st = None
             then Inl AttributeError
             else
               let name = (if truthy (var_USFMAbbreviation st) then the (var_USFMAbbreviation st)
                           else the (var_mainDivOsisID st))
               in case on_thisBook
                         (addLine (u ''id'')
                            (str_upper env name @ u '' converted to USFM from OSIS by ''
                               @ ProgName @ u '' V'' @ ProgVersion)) st of
                    Inl e \<Rightarrow> Inl e
                  | Inr st \<Rightarrow>
                      (case on_thisBook (addLine (u ''h'') name) st of
                         Inl e \<Rightarrow> Inl e
                       | Inr st \<Rightarrow> on_thisBook (addLine (u ''mt1'') (snd (last (book_rawLines b)))) st))"
    using s by (simp add: save_previous_book_def Let_def b0_def sta_def cong: sum.case_cong)
  also have "\<dots> = (case on_thisBook f1 stb of
                    Inl e \<Rightarrow> Inl e
                  | Inr st \<Rightarrow>
                      (case on_thisBook f2 st of
                         Inl e \<Rightarrow> Inl e
                       | Inr st \<Rightarrow> on_thisBook f3 st))"
    unfolding sv stb_def [symmetric] sum.case if_not_P [OF ok] Let_def nm [symmetric]
      f1_def f2_def f3_def ..
  also have "\<dots> = Inr st1"
    by (simp add: c1 c2 c3)
  finally have 1: "save_previous_book env r b st = Inr st1" .
  have "st1 = st\<lparr>objects := (objects st)[r := f3 (f2 (f1 b0))],
      self_books := AList.update (book_BBB b) r (self_books st),
      self_logged := L, self_BBBToNameDict := X, self_bookNameDict := Y,
      self_combinedBookNameDict := Z\<rparr>"
    by (simp add: st1_def stb_def sta_def b0_def)
  moreover have "book_BBB ((objects st)[r := f3 (f2 (f1 b0))] ! r) = book_BBB b"
    using rl by (simp add: f1_def f2_def f3_def addLine_def b0_def)
  ultimately have "saved_state r b st st1"
    unfolding saved_state_def using s by (intro exI conjI) (assumption | simp)+
  with 1 show ?thesis by blast
qed

lemma start_new_book_saved:
  assumes t: "self_thisBook st = Some r" and o: "object_at st r = Some b"
    and g: "var_BBB st \<noteq> []" "length (book_rawLines b) > 5"
    and h: "fst (last (book_rawLines b)) = u ''s'' \<longrightarrow>
              truthy (var_USFMAbbreviation st) \<or> var_mainDivOsisID st \<noteq> None"
  shows "\<exists>st1. saved_state r b st st1
           \<and> start_new_book env cmBBB chapterMilestone st = Inr ([], with_new_book env cmBBB st1)"
proof -
  from save_previous_book_result [OF t o h, of env] obtain st1 where
    1: "save_previous_book env r b st = Inr st1" and 2: "saved_state r b st st1"
    by blast
  have "start_new_book env cmBBB chapterMilestone st = Inr ([], with_new_book env cmBBB st1)"
    using t o g 1
    by (simp add: start_new_book_def with_new_book_def new_book_def BibleBook_def)
  with 2 show ?thesis by blast
qed

lemma start_new_book_dropped:
  assumes t: "self_thisBook st = Some r" and o: "object_at st r = Some b"
    and g: "var_BBB st = [] \<or> length (book_rawLines b) \<le> 5"
  shows "start_new_book env cmBBB chapterMilestone st
           = Inr (chapterMilestone, with_new_book env cmBBB st)"
  using t o g
  by (auto simp add: start_new_book_def with_new_book_def new_book_def BibleBook_def)

lemma count_list_append: "count_list (xs @ ys) x = count_list xs x + count_list ys x"
  by (induction xs) auto

lemma count_list_notin: "x \<notin> set xs \<Longrightarrow> count_list xs x = 0"
  by (induction xs) auto

lemma add_chapter_line:
  "on_thisBook (addLine m chapter) (with_new_book env cmBBB st)
     = Inr ((with_new_book env cmBBB st)
              \<lparr>objects := objects st @ [(new_book cmBBB)\<lparr>book_rawLines := [(m, chapter)]\<rparr>]\<rparr>)"
  by (simp add: on_thisBook_def with_new_book_def object_at_def addLine_def new_book_def)

text \<open>The chapter line block for a chapter ID of a book that differs from the
  current one.\<close>

lemma chapter_line_new_book:
  assumes "attr_osisID a = Some (osisBook @ DOT # chapter)"
    and "DOT \<notin> set osisBook" and "DOT \<notin> set chapter"
    and "getBBBFromOSIS env osisBook = Some (BBBStr cmBBB)" and "cmBBB \<noteq> []"
    and "cmBBB \<noteq> var_BBB st"
    and "start_new_book env cmBBB chapterMilestone st = Inr (cm', with_new_book env cmBBB st1)"
  shows "chapter_line env a chapterMilestone location st =
     Inr (cm', (with_new_book env cmBBB st1)
              \<lparr>objects := objects st1 @ [(new_book cmBBB)\<lparr>book_rawLines := [(u ''c'', chapter)]\<rparr>]\<rparr>)"
proof -
  have c: "count_list (osisBook @ DOT # chapter) DOT = 1"
    using assms(2,3) by (simp add: count_list_append count_list_notin)
  have b: "split_on DOT (osisBook @ DOT # chapter) = [osisBook, chapter]"
    using assms(2,3) by (simp add: split_on_sep split_on_notin)
  have k: "chapter_book env osisBook st = (Some cmBBB, st)"
    using assms(4,5) by (simp add: chapter_book_def)
  have t: "self_thisBook (with_new_book env cmBBB st1) \<noteq> None"
    by (simp add: with_new_book_def)
  show ?thesis
    using assms(1,6,7) c b k t
    by (simp add: chapter_line_def truthy_def Let_def index_def add_chapter_line)
qed

lemma chapter_start_milestone:
  assumes i: "el_items element = [(u ''osisID'', cid), (u ''sID'', sid)]"
    and l: "el_len element = 0" and s: "sid \<noteq> []" and c: "cid \<noteq> []"
  shows "\<exists>a L E. attr_osisID a = Some cid
           \<and> validateChapterElement env element chapterMilestone verseMilestone locationDescription st
             = chapter_line env a sid (u ''validateChapterElement: '' @ locationDescription)
                 (st\<lparr>self_logged := L, var_loadErrors := E\<rparr>)"
proof -
  define a where "a = no_attrs\<lparr>attr_osisID := Some cid, attr_sID := Some sid\<rparr>"
  define location where "location = u ''validateChapterElement: '' @ locationDescription"
  define st1 where "st1 = report (checkXMLNoTail env element (location @ u '' at '' @ verseMilestone)
                         (u ''j9k7'')) (report (checkXMLNoText env element (location @ u '' at '' @ verseMilestone)
                         (u ''s2a8'')) st)"
  define st2 where "st2 = (if verseMilestone \<noteq> [] \<and> var_haveEIDs st1
                      then log_both Error
                             (UnexpectedChapterMilestone (el_items element) verseMilestone location)
                             st1
                      else st1)"
  have a: "chapter_attributes location element (el_items element) (no_attrs, st1) = (a, st1)"
    by (simp add: i a_def)
  have t: "truthy (attr_osisID a)" "truthy (attr_sID a)" "\<not> truthy (attr_eID a)"
    using s c by (simp_all add: a_def truthy_def no_attrs_def)
  have cc: "\<And>s. chapter_cursor env element a chapterMilestone location s = Inr (sid, s)"
    using t by (simp add: chapter_cursor_def) (simp add: a_def)
  have v: "validateChapterElement env element chapterMilestone verseMilestone locationDescription st
             = chapter_line env a sid location st2"
    unfolding validateChapterElement_def Let_def location_def [symmetric] st1_def [symmetric]
    using t l s by (simp add: a st2_def Let_def cc)
  have "st2 = st\<lparr>self_logged := self_logged st2, var_loadErrors := var_loadErrors st2\<rparr>"
    by (cases "verseMilestone \<noteq> [] \<and> var_haveEIDs st1")
      (simp_all add: st2_def st1_def report_def log_both_def)
  then have "\<exists>L E. st2 = st\<lparr>self_logged := L, var_loadErrors := E\<rparr>"
    by blast
  then obtain L E where "st2 = st\<lparr>self_logged := L, var_loadErrors := E\<rparr>" by blast
  moreover have "attr_osisID a = Some cid" by (simp add: a_def)
  ultimately show ?thesis using v unfolding location_def by blast
qed

text \<open>
  Claim C3, amended.  A chapter start milestone (attributes \<^verbatim>\<open>osisID\<close> and
  \<^verbatim>\<open>sID\<close>, no children) whose chapter ID names a book other than the current one
  makes \<open>validateChapterElement\<close> start a new book, which holds the chapter line
  only, and make it the current book.  The previous book is passed to \<open>saveBook\<close>,
  which registers it under its code, exactly when the current book code is not
  empty and the previous book has more than five lines; then the function returns
  the empty string, and the previous book is unchanged unless its last line was a
  section heading.  Otherwise the previous book is not registered: it is left as it
  was and only replaced as the current book.
\<close>

theorem new_book_saves_previous:
  assumes "el_items element = [(u ''osisID'', osisBook @ DOT # chapter), (u ''sID'', sid)]"
    and "el_len element = 0" and "sid \<noteq> []"
    and "DOT \<notin> set osisBook" and "DOT \<notin> set chapter"
    and "getBBBFromOSIS env osisBook = Some (BBBStr cmBBB)" and "cmBBB \<noteq> []"
    and "cmBBB \<noteq> var_BBB st"
    and "self_thisBook st = Some r" and "object_at st r = Some b"
    and "fst (last (book_rawLines b)) = u ''s'' \<longrightarrow>
           truthy (var_USFMAbbreviation st) \<or> var_mainDivOsisID st \<noteq> None"
  shows "\<exists>cm' st'.
           validateChapterElement env element chapterMilestone verseMilestone locationDescription st
             = Inr (cm', st')
           \<and> self_thisBook st' = Some (length (objects st))
           \<and> object_at st' (length (objects st))
               = Some ((new_book cmBBB)\<lparr>book_rawLines := [(u ''c'', chapter)]\<rparr>)
           \<and> var_BBB st' = cmBBB
           \<and> (if var_BBB st \<noteq> [] \<and> length (book_rawLines b) > 5
              then cm' = []
                   \<and> self_books st' = AList.update (book_BBB b) r (self_books st)
                   \<and> (\<exists>b'. object_at st' r = Some b' \<and> book_BBB b' = book_BBB b)
                   \<and> (fst (last (book_rawLines b)) \<noteq> u ''s'' \<longrightarrow> object_at st' r = Some b)
              else cm' = sid \<and> self_books st' = self_books st \<and> object_at st' r = Some b)"
proof -
  define location where "location = u ''validateChapterElement: '' @ locationDescription"
  from chapter_start_milestone [OF assms(1,2,3), of env chapterMilestone verseMilestone
      locationDescription st]
  obtain a L E where a: "attr_osisID a = Some (osisBook @ DOT # chapter)"
    and v: "validateChapterElement env element chapterMilestone verseMilestone
              locationDescription st
            = chapter_line env a sid location (st\<lparr>self_logged := L, var_loadErrors := E\<rparr>)"
    unfolding location_def by auto
  define sta where "sta = st\<lparr>self_logged := L, var_loadErrors := E\<rparr>"
  have t: "self_thisBook sta = Some r" using assms(9) by (simp add: sta_def)
  have "object_at sta r = object_at st r" by (simp add: sta_def object_at_def)
  with assms(10) have o: "object_at sta r = Some b" by simp
  have n: "cmBBB \<noteq> var_BBB sta" using assms(8) by (simp add: sta_def)
  have h: "fst (last (book_rawLines b)) = u ''s'' \<longrightarrow>
             truthy (var_USFMAbbreviation sta) \<or> var_mainDivOsisID sta \<noteq> None"
    using assms(11) by (simp add: sta_def)
  have r: "r < length (objects st)" "objects st ! r = b"
    using object_at_Some [OF assms(10)] by simp_all
  define nb where "nb = (new_book cmBBB)\<lparr>book_rawLines := [(u ''c'', chapter)]\<rparr>"
  show ?thesis
  proof (cases "var_BBB st \<noteq> [] \<and> length (book_rawLines b) > 5")
    case True
    then have g: "var_BBB sta \<noteq> []" "length (book_rawLines b) > 5" by (simp_all add: sta_def)
    from start_new_book_saved [OF t o g h, of env cmBBB sid]
    obtain st1 where s: "saved_state r b sta st1"
      and n1: "start_new_book env cmBBB sid sta = Inr ([], with_new_book env cmBBB st1)"
      by blast
    from s obtain objs L1 X Y Z where
      st1: "st1 = sta\<lparr>objects := objs,
                      self_books := AList.update (book_BBB b) r (self_books sta),
                      self_logged := L1, self_BBBToNameDict := X, self_bookNameDict := Y,
                      self_combinedBookNameDict := Z\<rparr>"
      and len: "length objs = length (objects sta)"
      and same: "fst (last (book_rawLines b)) \<noteq> u ''s'' \<longrightarrow> objs = objects sta"
      and code: "book_BBB (objs ! r) = book_BBB b"
      unfolding saved_state_def by blast
    define st' where "st' = (with_new_book env cmBBB st1)\<lparr>objects := objects st1 @ [nb]\<rparr>"
    have res: "validateChapterElement env element chapterMilestone verseMilestone
                 locationDescription st = Inr ([], st')"
      unfolding v sta_def [symmetric] st'_def nb_def
      by (rule chapter_line_new_book [OF a assms(4,5,6,7) n n1])
    have l: "length objs = length (objects st)" using len by (simp add: sta_def)
    have 1: "self_thisBook st' = Some (length (objects st))"
      by (simp add: st'_def with_new_book_def st1 l)
    have 2: "object_at st' (length (objects st)) = Some nb"
      by (simp add: st'_def with_new_book_def st1 object_at_def l [symmetric])
    have 3: "var_BBB st' = cmBBB"
      by (simp add: st'_def with_new_book_def)
    have 4: "self_books st' = AList.update (book_BBB b) r (self_books st)"
      by (simp add: st'_def with_new_book_def st1 sta_def)
    have 5: "object_at st' r = Some (objs ! r)"
      using r(1) by (simp add: st'_def with_new_book_def st1 object_at_def l nth_append)
    have 6: "fst (last (book_rawLines b)) \<noteq> u ''s'' \<longrightarrow> object_at st' r = Some b"
      using same r(2) 5 by (simp add: sta_def)
    have "\<exists>b'. object_at st' r = Some b' \<and> book_BBB b' = book_BBB b"
      using 5 code by simp
    with res 1 2 3 4 6 show ?thesis
      unfolding if_P [OF True] nb_def by blast
  next
    case False
    then have g: "var_BBB sta = [] \<or> length (book_rawLines b) \<le> 5"
      by (auto simp add: sta_def)
    have n1: "start_new_book env cmBBB sid sta = Inr (sid, with_new_book env cmBBB sta)"
      by (rule start_new_book_dropped [OF t o g])
    define st' where "st' = (with_new_book env cmBBB sta)\<lparr>objects := objects sta @ [nb]\<rparr>"
    have res: "validateChapterElement env element chapterMilestone verseMilestone
                 locationDescription st = Inr (sid, st')"
      unfolding v sta_def [symmetric] st'_def nb_def
      by (rule chapter_line_new_book [OF a assms(4,5,6,7) n n1])
    have 1: "self_thisBook st' = Some (length (objects st))"
      by (simp add: st'_def with_new_book_def sta_def)
    have 2: "object_at st' (length (objects st)) = Some nb"
      by (simp add: st'_def with_new_book_def sta_def object_at_def)
    have 3: "var_BBB st' = cmBBB"
      by (simp add: st'_def with_new_book_def)
    have 4: "self_books st' = self_books st"
      by (simp add: st'_def with_new_book_def sta_def)
    have 5: "object_at st' r = Some b"
      using r by (simp add: st'_def with_new_book_def sta_def object_at_def nth_append)
    from res 1 2 3 4 5 show ?thesis
      unfolding if_not_P [OF False] nb_def by blast
  qed
qed

lemma gen_facts:
  "self_thisBook gen = Some 0" "object_at gen 0 = Some gen_book" "length (objects gen) = 1"
  "var_BBB gen = u ''GEN''" "self_books gen = []" "book_BBB gen_book = u ''GEN''"
  "length (book_rawLines gen_book) = 6" "fst (last (book_rawLines gen_book)) = u ''v''"
  by (simp_all add: gen_def gen_book_def test_loader_def object_at_def)

theorem new_book_saves_previous_witness:
  "\<exists>st'. validateChapterElement test_env
            (chapter_milestone [(u ''osisID'', u ''Exod.1''), (u ''sID'', u ''Exod.1'')])
            [] [] (u ''chapter'') gen = Inr ([], st')
         \<and> self_thisBook st' = Some 1
         \<and> object_at st' 1 = Some ((new_book (u ''EXO''))\<lparr>book_rawLines := [(u ''c'', u ''1'')]\<rparr>)
         \<and> var_BBB st' = u ''EXO''
         \<and> self_books st' = [(u ''GEN'', 0)]
         \<and> object_at st' 0 = Some gen_book"
  using new_book_saves_previous [of "chapter_milestone [(u ''osisID'', u ''Exod.1''), (u ''sID'', u ''Exod.1'')]"
      "u ''Exod''" "u ''1''" "u ''Exod.1''" test_env "u ''EXO''" gen 0 gen_book
      "[]" "[]" "u ''chapter''"]
  by (auto simp add: chapter_milestone_def test_env_def gen_facts)

text \<open>
  Claim C3 as stated has the current book saved whenever the milestone names another
  book.  The book \<^verbatim>\<open>JAM\<close> below has one line; the start milestone \<^verbatim>\<open>Exod.1\<close> makes
  \<open>validateChapterElement\<close> go on to the new book \<^verbatim>\<open>EXO\<close> without any call of
  \<open>saveBook\<close>: no book is registered.
\<close>

theorem short_book_not_saved_counterexample:
  "(case validateChapterElement test_env
           (chapter_milestone [(u ''osisID'', u ''Exod.1''), (u ''sID'', u ''Exod.1'')])
           [] [] (u ''chapter'') jas of
      Inl e \<Rightarrow> False
    | Inr (returned, st') \<Rightarrow>
        var_BBB jas = u ''JAM'' \<and> var_BBB st' = u ''EXO'' \<and> self_thisBook st' = Some 1
        \<and> self_books st' = [] \<and> map_of (self_books st') (u ''JAM'') = None)"
  by (simp add: validateChapterElement_def chapter_cursor_def chapter_line_def
      chapter_book_def start_new_book_def report_def on_thisBook_def object_at_def
      addLine_def BibleBook_def index_def truthy_def no_attrs_def Let_def
      chapter_milestone_def osis_examples)

end
